theory Spec2Isabelle
  imports Complex_Main "HOL-Library.Word"
begin

section \<open>JavaScript strings\<close>

text \<open>
  A JavaScript string is a sequence of UTF-16 code units. The literals of the chat
  component that lie in the Basic Latin range are written through \<open>ascii\<close>; the Hindi
  literals are given by their code units (all of them are in the Basic Multilingual
  Plane, one unit per code point).
\<close>

type_synonym jsstring = "16 word list"

definition ascii :: "string \<Rightarrow> jsstring" where
  "ascii s = map of_char s"

text \<open>\<^verbatim>\<open>String.prototype.includes(searchString)\<close>: does the search string occur as
  a contiguous run of code units.\<close>

fun isPrefixOf :: "jsstring \<Rightarrow> jsstring \<Rightarrow> bool" where
  "isPrefixOf [] s = True"
| "isPrefixOf (k # ks) [] = False"
| "isPrefixOf (k # ks) (c # cs) = (k = c \<and> isPrefixOf ks cs)"

fun includes_str :: "jsstring \<Rightarrow> jsstring \<Rightarrow> bool" where
  "includes_str [] k = (k = [])"
| "includes_str (c # cs) k = (isPrefixOf k (c # cs) \<or> includes_str cs k)"

text \<open>\<^verbatim>\<open>String.prototype.trim()\<close>: strips WhiteSpace and LineTerminator code units
  (ECMAScript 12.2 and 12.3) from both ends.\<close>

definition isWhiteSpace :: "16 word \<Rightarrow> bool" where
  "isWhiteSpace c \<longleftrightarrow>
     c \<in> {0x0009, 0x000A, 0x000B, 0x000C, 0x000D, 0x0020, 0x00A0, 0x1680,
          0x2000, 0x2001, 0x2002, 0x2003, 0x2004, 0x2005, 0x2006, 0x2007, 0x2008, 0x2009,
          0x200A, 0x2028, 0x2029, 0x202F, 0x205F, 0x3000, 0xFEFF}"

definition trim :: "jsstring \<Rightarrow> jsstring" where
  "trim s = rev (dropWhile isWhiteSpace (rev (dropWhile isWhiteSpace s)))"

text \<open>\<^verbatim>\<open>Number.prototype.toString()\<close> on a time value, an integer of magnitude at
  most 8.64e15, which is printed in full: the decimal digits, with a minus sign for a
  negative number.\<close>

definition digit :: "nat \<Rightarrow> 16 word" where
  "digit d = of_nat (48 + d)"

function digits :: "nat \<Rightarrow> jsstring" where
  "digits n = (if n < 10 then [digit n] else digits (n div 10) @ [digit (n mod 10)])"
  by pat_completeness auto
termination
  by (relation "measure (\<lambda>n. n)") auto

declare digits.simps [simp del]

definition toString :: "int \<Rightarrow> jsstring" where
  "toString n = (if n < 0 then 0x002D # digits (nat (- n)) else digits (nat n))"

section \<open>The Hindi literals of the chat component\<close>

definition hi_micAllow :: jsstring where
  \<comment> \<open>Hindi text for the not-allowed error (source line 121), 24 UTF-16 code units\<close>
  "hi_micAllow =
   [0x092E, 0x093E, 0x0907, 0x0915, 0x094D, 0x0930, 0x094B, 0x092B, 0x094B, 0x0928, 0x0020,
    0x0915, 0x0940, 0x0020, 0x0905, 0x0928, 0x0941, 0x092E, 0x0924, 0x093F, 0x0020, 0x0926,
    0x0947, 0x0902]"

definition hi_noSpeech :: jsstring where
  \<comment> \<open>Hindi text for the no-speech error (source line 126), 21 UTF-16 code units\<close>
  "hi_noSpeech =
   [0x0915, 0x094B, 0x0908, 0x0020, 0x0906, 0x0935, 0x093E, 0x091C, 0x0020, 0x0928, 0x0939,
    0x0940, 0x0902, 0x0020, 0x0938, 0x0941, 0x0928, 0x0940, 0x0020, 0x0917, 0x0908]"

definition hi_voiceError :: jsstring where
  \<comment> \<open>Hindi text for any other recognition error (source line 131), 26 UTF-16 code units\<close>
  "hi_voiceError =
   [0x0935, 0x0949, 0x0907, 0x0938, 0x0020, 0x0930, 0x093F, 0x0915, 0x0949, 0x0917, 0x094D,
    0x0928, 0x093F, 0x0936, 0x0928, 0x0020, 0x092E, 0x0947, 0x0902, 0x0020, 0x0938, 0x092E,
    0x0938, 0x094D, 0x092F, 0x093E]"

definition hi_locationFound :: jsstring where
  \<comment> \<open>Hindi greeting after a position fix (source line 188), 82 UTF-16 code units\<close>
  "hi_locationFound =
   [0x0906, 0x092A, 0x0915, 0x093E, 0x0020, 0x0938, 0x094D, 0x0925, 0x093E, 0x0928, 0x0020,
    0x092E, 0x093F, 0x0932, 0x0020, 0x0917, 0x092F, 0x093E, 0x0021, 0x0020, 0x0905, 0x092C,
    0x0020, 0x092E, 0x0948, 0x0902, 0x0020, 0x0906, 0x092A, 0x0915, 0x0947, 0x0020, 0x0915,
    0x094D, 0x0937, 0x0947, 0x0924, 0x094D, 0x0930, 0x0020, 0x0915, 0x0947, 0x0020, 0x0932,
    0x093F, 0x090F, 0x0020, 0x092D, 0x0942, 0x091C, 0x0932, 0x0020, 0x0915, 0x0940, 0x0020,
    0x091C, 0x093E, 0x0928, 0x0915, 0x093E, 0x0930, 0x0940, 0x0020, 0x092A, 0x094D, 0x0930,
    0x0926, 0x093E, 0x0928, 0x0020, 0x0915, 0x0930, 0x0020, 0x0938, 0x0915, 0x0924, 0x093E,
    0x0020, 0x0939, 0x0942, 0x0902, 0x0964]"

definition hi_sugMyAreaQuality :: jsstring where
  \<comment> \<open>Hindi greeting suggestion 1 (source line 193), 42 UTF-16 code units\<close>
  "hi_sugMyAreaQuality =
   [0x092E, 0x0947, 0x0930, 0x0947, 0x0020, 0x0915, 0x094D, 0x0937, 0x0947, 0x0924, 0x094D,
    0x0930, 0x0020, 0x092E, 0x0947, 0x0902, 0x0020, 0x092A, 0x093E, 0x0928, 0x0940, 0x0020,
    0x0915, 0x0940, 0x0020, 0x0917, 0x0941, 0x0923, 0x0935, 0x0924, 0x094D, 0x0924, 0x093E,
    0x0020, 0x0915, 0x0948, 0x0938, 0x0940, 0x0020, 0x0939, 0x0948, 0x003F]"

definition hi_sugShowLevels :: jsstring where
  \<comment> \<open>Hindi greeting suggestion 2 (source line 194), 19 UTF-16 code units\<close>
  "hi_sugShowLevels =
   [0x092A, 0x093E, 0x0928, 0x0940, 0x0020, 0x0915, 0x093E, 0x0020, 0x0938, 0x094D, 0x0924,
    0x0930, 0x0020, 0x0926, 0x093F, 0x0916, 0x093E, 0x090F, 0x0902]"

definition hi_sugFiveYear :: jsstring where
  \<comment> \<open>Hindi greeting suggestion 3 (source line 195), 19 UTF-16 code units\<close>
  "hi_sugFiveYear =
   [0x0035, 0x0020, 0x0938, 0x093E, 0x0932, 0x0020, 0x0915, 0x0940, 0x0020, 0x092D, 0x0935,
    0x093F, 0x0937, 0x094D, 0x092F, 0x0935, 0x093E, 0x0923, 0x0940]"

definition hi_locationDenied :: jsstring where
  \<comment> \<open>Hindi fallback after a geolocation failure (source line 205), 76 UTF-16 code units\<close>
  "hi_locationDenied =
   [0x0938, 0x094D, 0x0925, 0x093E, 0x0928, 0x0020, 0x0915, 0x0940, 0x0020, 0x0905, 0x0928,
    0x0941, 0x092E, 0x0924, 0x093F, 0x0020, 0x0928, 0x0939, 0x0940, 0x0902, 0x0020, 0x092E,
    0x093F, 0x0932, 0x0940, 0x0964, 0x0020, 0x0906, 0x092A, 0x0020, 0x0905, 0x092D, 0x0940,
    0x0020, 0x092D, 0x0940, 0x0020, 0x0915, 0x093F, 0x0938, 0x0940, 0x0020, 0x092D, 0x0940,
    0x0020, 0x0938, 0x094D, 0x0925, 0x093E, 0x0928, 0x0020, 0x0915, 0x0947, 0x0020, 0x092C,
    0x093E, 0x0930, 0x0947, 0x0020, 0x092E, 0x0947, 0x0902, 0x0020, 0x092A, 0x0942, 0x091B,
    0x0020, 0x0938, 0x0915, 0x0924, 0x0947, 0x0020, 0x0939, 0x0948, 0x0902, 0x0964]"

definition hi_sugDelhiQuality :: jsstring where
  \<comment> \<open>Hindi fallback suggestion 1 (source line 210), 27 UTF-16 code units\<close>
  "hi_sugDelhiQuality =
   [0x0926, 0x093F, 0x0932, 0x094D, 0x0932, 0x0940, 0x0020, 0x092E, 0x0947, 0x0902, 0x0020,
    0x092A, 0x093E, 0x0928, 0x0940, 0x0020, 0x0915, 0x0940, 0x0020, 0x0917, 0x0941, 0x0923,
    0x0935, 0x0924, 0x094D, 0x0924, 0x093E]"

definition hi_sugMumbaiPune :: jsstring where
  \<comment> \<open>Hindi fallback suggestion 2 (source line 211), 22 UTF-16 code units\<close>
  "hi_sugMumbaiPune =
   [0x092E, 0x0941, 0x0902, 0x092C, 0x0908, 0x0020, 0x0914, 0x0930, 0x0020, 0x092A, 0x0941,
    0x0923, 0x0947, 0x0020, 0x0915, 0x0940, 0x0020, 0x0924, 0x0941, 0x0932, 0x0928, 0x093E]"

definition hi_sugBangaloreData :: jsstring where
  \<comment> \<open>Hindi fallback suggestion 3 (source line 212), 15 UTF-16 code units\<close>
  "hi_sugBangaloreData =
   [0x092C, 0x0948, 0x0902, 0x0917, 0x0932, 0x094B, 0x0930, 0x0020, 0x0915, 0x093E, 0x0020,
    0x0921, 0x0947, 0x091F, 0x093E]"

definition hi_voiceNotAvailable :: jsstring where
  \<comment> \<open>Hindi text when recognition is absent (source line 228), 30 UTF-16 code units\<close>
  "hi_voiceNotAvailable =
   [0x0935, 0x0949, 0x0907, 0x0938, 0x0020, 0x0930, 0x093F, 0x0915, 0x0949, 0x0917, 0x094D,
    0x0928, 0x093F, 0x0936, 0x0928, 0x0020, 0x0909, 0x092A, 0x0932, 0x092C, 0x094D, 0x0927,
    0x0020, 0x0928, 0x0939, 0x0940, 0x0902, 0x0020, 0x0939, 0x0948]"

definition hi_httpsRequired :: jsstring where
  \<comment> \<open>Hindi text when the page is not secure (source line 243), 25 UTF-16 code units\<close>
  "hi_httpsRequired =
   [0x0048, 0x0054, 0x0054, 0x0050, 0x0053, 0x0020, 0x0915, 0x0928, 0x0947, 0x0915, 0x094D,
    0x0936, 0x0928, 0x0020, 0x0915, 0x0940, 0x0020, 0x0906, 0x0935, 0x0936, 0x094D, 0x092F,
    0x0915, 0x0924, 0x093E]"

definition hi_couldNotStart :: jsstring where
  \<comment> \<open>Hindi text when start throws (source line 261), 32 UTF-16 code units\<close>
  "hi_couldNotStart =
   [0x0935, 0x0949, 0x0907, 0x0938, 0x0020, 0x0930, 0x093F, 0x0915, 0x0949, 0x0917, 0x094D,
    0x0928, 0x093F, 0x0936, 0x0928, 0x0020, 0x0936, 0x0941, 0x0930, 0x0942, 0x0020, 0x0928,
    0x0939, 0x0940, 0x0902, 0x0020, 0x0939, 0x094B, 0x0020, 0x0938, 0x0915, 0x093E]"

definition hi_quality :: jsstring where
  \<comment> \<open>Hindi quality keyword (source line 275), 8 UTF-16 code units\<close>
  "hi_quality =
   [0x0917, 0x0941, 0x0923, 0x0935, 0x0924, 0x094D, 0x0924, 0x093E]"

definition hi_sugLevelTrends :: jsstring where
  \<comment> \<open>Hindi quality suggestion 1 (source line 285), 26 UTF-16 code units\<close>
  "hi_sugLevelTrends =
   [0x092A, 0x093E, 0x0928, 0x0940, 0x0020, 0x0915, 0x093E, 0x0020, 0x0938, 0x094D, 0x0924,
    0x0930, 0x0020, 0x091F, 0x094D, 0x0930, 0x0947, 0x0902, 0x0921, 0x0020, 0x0926, 0x093F,
    0x0916, 0x093E, 0x090F, 0x0902]"

definition hi_sugCompareOthers :: jsstring where
  \<comment> \<open>Hindi quality suggestion 2 (source line 286), 24 UTF-16 code units\<close>
  "hi_sugCompareOthers =
   [0x0905, 0x0928, 0x094D, 0x092F, 0x0020, 0x0936, 0x0939, 0x0930, 0x094B, 0x0902, 0x0020,
    0x0938, 0x0947, 0x0020, 0x0924, 0x0941, 0x0932, 0x0928, 0x093E, 0x0020, 0x0915, 0x0930,
    0x0947, 0x0902]"

definition hi_sugFuturePredictions :: jsstring where
  \<comment> \<open>Hindi quality suggestion 3 (source line 287), 20 UTF-16 code units\<close>
  "hi_sugFuturePredictions =
   [0x092D, 0x0935, 0x093F, 0x0937, 0x094D, 0x092F, 0x0020, 0x0915, 0x0940, 0x0020, 0x092D,
    0x0935, 0x093F, 0x0937, 0x094D, 0x092F, 0x0935, 0x093E, 0x0923, 0x0940]"

definition hi_compare :: jsstring where
  \<comment> \<open>Hindi comparison keyword (source line 292), 5 UTF-16 code units\<close>
  "hi_compare =
   [0x0924, 0x0941, 0x0932, 0x0928, 0x093E]"

definition hi_comparisonText :: jsstring where
  \<comment> \<open>Hindi comparison text (source line 296), 40 UTF-16 code units\<close>
  "hi_comparisonText =
   [0x092F, 0x0939, 0x093E, 0x0901, 0x0020, 0x0926, 0x094B, 0x0020, 0x0938, 0x094D, 0x0925,
    0x093E, 0x0928, 0x094B, 0x0902, 0x0020, 0x0915, 0x0947, 0x0020, 0x092C, 0x0940, 0x091A,
    0x0020, 0x092D, 0x0942, 0x091C, 0x0932, 0x0020, 0x0915, 0x0940, 0x0020, 0x0924, 0x0941,
    0x0932, 0x0928, 0x093E, 0x0020, 0x0939, 0x0948, 0x0964]"

definition hi_sugAddCities :: jsstring where
  \<comment> \<open>Hindi comparison suggestion 1 (source line 302), 13 UTF-16 code units\<close>
  "hi_sugAddCities =
   [0x0914, 0x0930, 0x0020, 0x0936, 0x0939, 0x0930, 0x0020, 0x091C, 0x094B, 0x0921, 0x093C,
    0x0947, 0x0902]"

definition hi_sugDetailedReport :: jsstring where
  \<comment> \<open>Hindi comparison suggestion 2 (source line 303), 15 UTF-16 code units\<close>
  "hi_sugDetailedReport =
   [0x0935, 0x093F, 0x0938, 0x094D, 0x0924, 0x0943, 0x0924, 0x0020, 0x0930, 0x093F, 0x092A,
    0x094B, 0x0930, 0x094D, 0x091F]"

definition hi_sugDownloadData :: jsstring where
  \<comment> \<open>Hindi comparison suggestion 3 (source line 304), 12 UTF-16 code units\<close>
  "hi_sugDownloadData =
   [0x0921, 0x093E, 0x0909, 0x0928, 0x0932, 0x094B, 0x0921, 0x0020, 0x0921, 0x0947, 0x091F,
    0x093E]"

definition hi_predict :: jsstring where
  \<comment> \<open>Hindi prediction keyword (source line 309), 10 UTF-16 code units\<close>
  "hi_predict =
   [0x092D, 0x0935, 0x093F, 0x0937, 0x094D, 0x092F, 0x0935, 0x093E, 0x0923, 0x0940]"

definition hi_predictionText :: jsstring where
  \<comment> \<open>Hindi prediction text (source line 313), 54 UTF-16 code units\<close>
  "hi_predictionText =
   [0x0905, 0x0917, 0x0932, 0x0947, 0x0020, 0x0035, 0x0020, 0x0938, 0x093E, 0x0932, 0x0020,
    0x0915, 0x0947, 0x0020, 0x0932, 0x093F, 0x090F, 0x0020, 0x092D, 0x0942, 0x091C, 0x0932,
    0x0020, 0x0938, 0x094D, 0x0924, 0x0930, 0x0020, 0x0915, 0x0940, 0x0020, 0x092D, 0x0935,
    0x093F, 0x0937, 0x094D, 0x092F, 0x0935, 0x093E, 0x0923, 0x0940, 0x0020, 0x0926, 0x093F,
    0x0916, 0x093E, 0x0908, 0x0020, 0x0917, 0x0908, 0x0020, 0x0939, 0x0948, 0x0964]"

definition hi_sugRiskAnalysis :: jsstring where
  \<comment> \<open>Hindi prediction suggestion 1 (source line 320), 14 UTF-16 code units\<close>
  "hi_sugRiskAnalysis =
   [0x091C, 0x094B, 0x0916, 0x093F, 0x092E, 0x0020, 0x0935, 0x093F, 0x0936, 0x094D, 0x0932,
    0x0947, 0x0937, 0x0923]"

definition hi_sugRecommendations :: jsstring where
  \<comment> \<open>Hindi prediction suggestion 2 (source line 321), 9 UTF-16 code units\<close>
  "hi_sugRecommendations =
   [0x0938, 0x0941, 0x091D, 0x093E, 0x0935, 0x0020, 0x0926, 0x0947, 0x0902]"

definition hi_sugSetAlerts :: jsstring where
  \<comment> \<open>Hindi prediction suggestion 3 (source line 322), 15 UTF-16 code units\<close>
  "hi_sugSetAlerts =
   [0x0905, 0x0932, 0x093E, 0x0930, 0x094D, 0x091F, 0x0020, 0x0938, 0x0947, 0x091F, 0x0020,
    0x0915, 0x0930, 0x0947, 0x0902]"

definition hi_level :: jsstring where
  \<comment> \<open>Hindi level keyword (source line 327), 4 UTF-16 code units\<close>
  "hi_level =
   [0x0938, 0x094D, 0x0924, 0x0930]"

definition hi_sugHistorical :: jsstring where
  \<comment> \<open>Hindi level suggestion 1 (source line 337), 13 UTF-16 code units\<close>
  "hi_sugHistorical =
   [0x0910, 0x0924, 0x093F, 0x0939, 0x093E, 0x0938, 0x093F, 0x0915, 0x0020, 0x0921, 0x0947,
    0x091F, 0x093E]"

definition hi_sugMonthly :: jsstring where
  \<comment> \<open>Hindi level suggestion 2 (source line 338), 12 UTF-16 code units\<close>
  "hi_sugMonthly =
   [0x092E, 0x093E, 0x0938, 0x093F, 0x0915, 0x0020, 0x091F, 0x094D, 0x0930, 0x0947, 0x0902,
    0x0921]"

definition hi_sugOtherLocations :: jsstring where
  \<comment> \<open>Hindi level suggestion 3 (source line 339), 16 UTF-16 code units\<close>
  "hi_sugOtherLocations =
   [0x0905, 0x0928, 0x094D, 0x092F, 0x0020, 0x0938, 0x094D, 0x0925, 0x093E, 0x0928, 0x0020,
    0x0926, 0x0947, 0x0916, 0x0947, 0x0902]"

definition hi_helpText :: jsstring where
  \<comment> \<open>Hindi default help text (source line 347), 94 UTF-16 code units\<close>
  "hi_helpText =
   [0x092E, 0x0948, 0x0902, 0x0020, 0x0906, 0x092A, 0x0915, 0x0940, 0x0020, 0x092E, 0x0926,
    0x0926, 0x0020, 0x0915, 0x0930, 0x0928, 0x0947, 0x0020, 0x0915, 0x0947, 0x0020, 0x0932,
    0x093F, 0x090F, 0x0020, 0x092F, 0x0939, 0x093E, 0x0901, 0x0020, 0x0939, 0x0942, 0x0901,
    0x0964, 0x0020, 0x0915, 0x0943, 0x092A, 0x092F, 0x093E, 0x0020, 0x092D, 0x0942, 0x091C,
    0x0932, 0x0020, 0x0917, 0x0941, 0x0923, 0x0935, 0x0924, 0x094D, 0x0924, 0x093E, 0x002C,
    0x0020, 0x0924, 0x0941, 0x0932, 0x0928, 0x093E, 0x0020, 0x092F, 0x093E, 0x0020, 0x092D,
    0x0935, 0x093F, 0x0937, 0x094D, 0x092F, 0x0935, 0x093E, 0x0923, 0x0940, 0x0020, 0x0915,
    0x0947, 0x0020, 0x092C, 0x093E, 0x0930, 0x0947, 0x0020, 0x092E, 0x0947, 0x0902, 0x0020,
    0x092A, 0x0942, 0x091B, 0x0947, 0x0902, 0x0964]"

definition hi_sugCheckQuality :: jsstring where
  \<comment> \<open>Hindi default suggestion 1 (source line 352), 23 UTF-16 code units\<close>
  "hi_sugCheckQuality =
   [0x092A, 0x093E, 0x0928, 0x0940, 0x0020, 0x0915, 0x0940, 0x0020, 0x0917, 0x0941, 0x0923,
    0x0935, 0x0924, 0x094D, 0x0924, 0x093E, 0x0020, 0x091C, 0x093E, 0x0902, 0x091A, 0x0947,
    0x0902]"

definition hi_sugCompareCities :: jsstring where
  \<comment> \<open>Hindi default suggestion 2 (source line 353), 14 UTF-16 code units\<close>
  "hi_sugCompareCities =
   [0x0936, 0x0939, 0x0930, 0x094B, 0x0902, 0x0020, 0x0915, 0x0940, 0x0020, 0x0924, 0x0941,
    0x0932, 0x0928, 0x093E]"

definition hi_sugFutureReports :: jsstring where
  \<comment> \<open>Hindi default suggestion 3 (source line 354), 17 UTF-16 code units\<close>
  "hi_sugFutureReports =
   [0x092D, 0x0935, 0x093F, 0x0937, 0x094D, 0x092F, 0x0020, 0x0915, 0x0940, 0x0020, 0x0930,
    0x093F, 0x092A, 0x094B, 0x0930, 0x094D, 0x091F]"

definition hi_yourArea :: jsstring where
  \<comment> \<open>Hindi for "your area" in the templates (source line 279), 12 UTF-16 code units\<close>
  "hi_yourArea =
   [0x0906, 0x092A, 0x0915, 0x0947, 0x0020, 0x0915, 0x094D, 0x0937, 0x0947, 0x0924, 0x094D,
    0x0930]"

definition hi_thisArea :: jsstring where
  \<comment> \<open>Hindi for "this area" in the templates (source line 279), 10 UTF-16 code units\<close>
  "hi_thisArea =
   [0x0907, 0x0938, 0x0020, 0x0915, 0x094D, 0x0937, 0x0947, 0x0924, 0x094D, 0x0930]"

definition hi_qualityTail :: jsstring where
  \<comment> \<open>rest of the Hindi quality template (source line 279), 77 UTF-16 code units\<close>
  "hi_qualityTail =
   [0x0020, 0x0915, 0x0947, 0x0020, 0x0932, 0x093F, 0x090F, 0x0020, 0x092D, 0x0942, 0x091C,
    0x0932, 0x0020, 0x0917, 0x0941, 0x0923, 0x0935, 0x0924, 0x094D, 0x0924, 0x093E, 0x0020,
    0x0921, 0x0947, 0x091F, 0x093E, 0x0964, 0x0020, 0x0921, 0x0947, 0x091F, 0x093E, 0x0020,
    0x0938, 0x0947, 0x0020, 0x092A, 0x0924, 0x093E, 0x0020, 0x091A, 0x0932, 0x0924, 0x093E,
    0x0020, 0x0939, 0x0948, 0x0020, 0x0915, 0x093F, 0x0020, 0x092A, 0x093E, 0x0928, 0x0940,
    0x0020, 0x0915, 0x0940, 0x0020, 0x0917, 0x0941, 0x0923, 0x0935, 0x0924, 0x094D, 0x0924,
    0x093E, 0x0020, 0x0905, 0x091A, 0x094D, 0x091B, 0x0940, 0x0020, 0x0939, 0x0948, 0x0964]"

definition hi_levelTail :: jsstring where
  \<comment> \<open>rest of the Hindi level template (source line 331), 34 UTF-16 code units\<close>
  "hi_levelTail =
   [0x0020, 0x092E, 0x0947, 0x0902, 0x0020, 0x0935, 0x0930, 0x094D, 0x0924, 0x092E, 0x093E,
    0x0928, 0x0020, 0x092D, 0x0942, 0x091C, 0x0932, 0x0020, 0x0938, 0x094D, 0x0924, 0x0930,
    0x0020, 0x0938, 0x093E, 0x092E, 0x093E, 0x0928, 0x094D, 0x092F, 0x0020, 0x0939, 0x0948,
    0x0964]"

section \<open>Data model\<close>

datatype Language = En | Hi

datatype Payload = Payload (isPrediction: bool)

text \<open>The \<^verbatim>\<open>Message\<close> interface. Optional fields are options: \<open>None\<close> is a field the
  object literal does not set. \<open>id'\<close> and \<open>text'\<close> are the fields \<^verbatim>\<open>id\<close> and
  \<^verbatim>\<open>text\<close>; \<open>timestamp\<close> is the time value of the \<^verbatim>\<open>Date\<close>.\<close>

record Message =
  id' :: jsstring
  text' :: jsstring
  isUser :: bool
  timestamp :: int
  data :: "Payload option"
  showChart :: "bool option"
  showComparison :: "bool option"
  suggestions :: "jsstring list option"

record LocationData =
  latitude :: real
  longitude :: real
  city :: "jsstring option"
  state :: "jsstring option"

text \<open>How the render reads the optional flags: \<^verbatim>\<open>message.showChart && ...\<close>,
  \<^verbatim>\<open>message.showComparison && ...\<close> and \<^verbatim>\<open>message.data?.isPrediction\<close>; an absent
  field is falsy.\<close>

definition chartFlag :: "Message \<Rightarrow> bool" where
  "chartFlag m = (case showChart m of None \<Rightarrow> False | Some b \<Rightarrow> b)"

definition comparisonFlag :: "Message \<Rightarrow> bool" where
  "comparisonFlag m = (case showComparison m of None \<Rightarrow> False | Some b \<Rightarrow> b)"

definition predictionMarker :: "Message \<Rightarrow> bool" where
  "predictionMarker m = (case data m of None \<Rightarrow> False | Some p \<Rightarrow> isPrediction p)"

section \<open>The intent dispatcher\<close>

text \<open>
  The five object literals that \<^verbatim>\<open>generateResponse\<close> returns, one per branch, in
  the order of the source. \<open>language\<close> and \<open>userLocation\<close> are the values the closure
  captured, \<open>now\<close> is the reading of \<^verbatim>\<open>Date.now()\<close> and \<open>date\<close> the time value of
  \<^verbatim>\<open>new Date()\<close>. \<^verbatim>\<open>userLocation ? a : b\<close> tests for \<^verbatim>\<open>null\<close>.
\<close>

definition qualityResponse :: "Language \<Rightarrow> LocationData option \<Rightarrow> int \<Rightarrow> int \<Rightarrow> Message" where
  "qualityResponse language userLocation now date =
     \<lparr> id' = toString now,
       text' = (if language = Hi
                then (if userLocation \<noteq> None then hi_yourArea else hi_thisArea) @ hi_qualityTail
                else ascii ''Groundwater quality data for ''
                     @ (if userLocation \<noteq> None then ascii ''your area'' else ascii ''this area'')
                     @ ascii ''. The data shows good water quality with acceptable TDS levels.''),
       isUser = False,
       timestamp = date,
       data = None,
       showChart = Some True,
       showComparison = None,
       suggestions = Some
         [if language = Hi then hi_sugLevelTrends else ascii ''Show water level trends'',
          if language = Hi then hi_sugCompareOthers else ascii ''Compare with other cities'',
          if language = Hi then hi_sugFuturePredictions else ascii ''Future predictions''] \<rparr>"

definition comparisonResponse :: "Language \<Rightarrow> int \<Rightarrow> int \<Rightarrow> Message" where
  "comparisonResponse language now date =
     \<lparr> id' = toString now,
       text' = (if language = Hi then hi_comparisonText
                else ascii ''Here'' @ [0x0027]
                     @ ascii ''s a comparison of groundwater data between the two locations.''),
       isUser = False,
       timestamp = date,
       data = None,
       showChart = None,
       showComparison = Some True,
       suggestions = Some
         [if language = Hi then hi_sugAddCities else ascii ''Add more cities'',
          if language = Hi then hi_sugDetailedReport else ascii ''Detailed report'',
          if language = Hi then hi_sugDownloadData else ascii ''Download data''] \<rparr>"

definition predictionResponse :: "Language \<Rightarrow> int \<Rightarrow> int \<Rightarrow> Message" where
  "predictionResponse language now date =
     \<lparr> id' = toString now,
       text' = (if language = Hi then hi_predictionText
                else ascii ''Here'' @ [0x0027]
                     @ ascii ''s the 5-year prediction for groundwater levels in your area.''),
       isUser = False,
       timestamp = date,
       data = Some (Payload True),
       showChart = Some True,
       showComparison = None,
       suggestions = Some
         [if language = Hi then hi_sugRiskAnalysis else ascii ''Risk analysis'',
          if language = Hi then hi_sugRecommendations else ascii ''Get recommendations'',
          if language = Hi then hi_sugSetAlerts else ascii ''Set alerts''] \<rparr>"

definition levelResponse :: "Language \<Rightarrow> LocationData option \<Rightarrow> int \<Rightarrow> int \<Rightarrow> Message" where
  "levelResponse language userLocation now date =
     \<lparr> id' = toString now,
       text' = (if language = Hi
                then (if userLocation \<noteq> None then hi_yourArea else hi_thisArea) @ hi_levelTail
                else ascii ''Current groundwater level in ''
                     @ (if userLocation \<noteq> None then ascii ''your area'' else ascii ''this area'')
                     @ ascii '' is normal.''),
       isUser = False,
       timestamp = date,
       data = None,
       showChart = Some True,
       showComparison = None,
       suggestions = Some
         [if language = Hi then hi_sugHistorical else ascii ''Historical data'',
          if language = Hi then hi_sugMonthly else ascii ''Monthly trends'',
          if language = Hi then hi_sugOtherLocations else ascii ''Check other locations''] \<rparr>"

definition helpResponse :: "Language \<Rightarrow> int \<Rightarrow> int \<Rightarrow> Message" where
  "helpResponse language now date =
     \<lparr> id' = toString now,
       text' = (if language = Hi then hi_helpText
                else ascii ''I'' @ [0x0027]
                     @ ascii ''m here to help you with groundwater information. Please ask about water quality, comparisons, or predictions.''),
       isUser = False,
       timestamp = date,
       data = None,
       showChart = None,
       showComparison = None,
       suggestions = Some
         [if language = Hi then hi_sugCheckQuality else ascii ''Check water quality'',
          if language = Hi then hi_sugCompareCities else ascii ''Compare cities'',
          if language = Hi then hi_sugFutureReports else ascii ''Future reports''] \<rparr>"

text \<open>
  \<^verbatim>\<open>generateResponse\<close> after its one-second delay: the chain of \<^verbatim>\<open>if\<close> statements on
  the lower-cased message. \<open>toLowerCase\<close> is the platform's
  \<^verbatim>\<open>String.prototype.toLowerCase\<close>, taken as a parameter.
\<close>

definition generateResponse ::
  "(jsstring \<Rightarrow> jsstring) \<Rightarrow> Language \<Rightarrow> LocationData option \<Rightarrow> int \<Rightarrow> int \<Rightarrow> jsstring \<Rightarrow> Message"
where
  "generateResponse toLowerCase language userLocation now date userMessage =
    (let lowerMessage = toLowerCase userMessage in
     if includes_str lowerMessage (ascii ''quality'') \<or> includes_str lowerMessage hi_quality then
       qualityResponse language userLocation now date
     else if includes_str lowerMessage (ascii ''compare'') \<or> includes_str lowerMessage hi_compare then
       comparisonResponse language now date
     else if includes_str lowerMessage (ascii ''predict'') \<or> includes_str lowerMessage hi_predict then
       predictionResponse language now date
     else if includes_str lowerMessage (ascii ''level'') \<or> includes_str lowerMessage hi_level then
       levelResponse language userLocation now date
     else
       helpResponse language now date)"

text \<open>\<^verbatim>\<open>toLowerCase\<close> on the strings whose cased characters are all Basic Latin
  letters (the Devanagari block has no case); used to run the dispatcher on concrete
  inputs.\<close>

definition toLowerCase_ascii :: "jsstring \<Rightarrow> jsstring" where
  "toLowerCase_ascii s = map (\<lambda>c. if 0x0041 \<le> c \<and> c \<le> 0x005A then c + 0x0020 else c) s"

subsection \<open>The classification as the specification words it\<close>

datatype Intent = Quality | Comparison | Prediction | Level | Help

text \<open>The ordered keyword sets of the specification: the first set with a keyword
  that occurs in the lower-cased text decides the intent; none gives the default.\<close>

definition keywordTable :: "(Intent \<times> jsstring list) list" where
  "keywordTable =
     [(Quality, [ascii ''quality'', hi_quality]),
      (Comparison, [ascii ''compare'', hi_compare]),
      (Prediction, [ascii ''predict'', hi_predict]),
      (Level, [ascii ''level'', hi_level])]"

definition spec_classify :: "jsstring \<Rightarrow> Intent" where
  "spec_classify lowered =
     (case find (\<lambda>(i, kws). list_ex (includes_str lowered) kws) keywordTable of
        None \<Rightarrow> Help
      | Some (i, kws) \<Rightarrow> i)"

definition intentResponse :: "Intent \<Rightarrow> Language \<Rightarrow> LocationData option \<Rightarrow> int \<Rightarrow> int \<Rightarrow> Message" where
  "intentResponse i language userLocation now date =
     (case i of
        Quality \<Rightarrow> qualityResponse language userLocation now date
      | Comparison \<Rightarrow> comparisonResponse language now date
      | Prediction \<Rightarrow> predictionResponse language now date
      | Level \<Rightarrow> levelResponse language userLocation now date
      | Help \<Rightarrow> helpResponse language now date)"

section \<open>Component state\<close>

datatype Permission = Pending | Granted | Denied

text \<open>The recognition object the initialisation effect stores in \<^verbatim>\<open>recognitionRef\<close>.\<close>

record Recognition =
  continuous :: bool
  interimResults :: bool
  lang :: jsstring

text \<open>The \<^verbatim>\<open>useState\<close> cells and the recognition ref of \<^verbatim>\<open>GroundwaterChat\<close>.\<close>

record ChatState =
  messages :: "Message list"
  inputValue :: jsstring
  isListening :: bool
  isProcessing :: bool
  userLocation :: "LocationData option"
  locationPermission :: Permission
  recognitionRef :: "Recognition option"

definition initialState :: ChatState where
  "initialState =
     \<lparr> messages = [], inputValue = [], isListening = False, isProcessing = False,
       userLocation = None, locationPermission = Pending, recognitionRef = None \<rparr>"

text \<open>\<^verbatim>\<open>setMessages(prev => [...prev, m])\<close>.\<close>

definition appendMessage :: "Message \<Rightarrow> ChatState \<Rightarrow> ChatState" where
  "appendMessage m st = st\<lparr>messages := messages st @ [m]\<rparr>"

section \<open>The speech input adapter\<close>

text \<open>The effect on \<^verbatim>\<open>[language]\<close>: \<open>supported\<close> says whether the window offers
  \<^verbatim>\<open>SpeechRecognition\<close> or \<^verbatim>\<open>webkitSpeechRecognition\<close>.\<close>

definition initSpeechRecognition :: "Language \<Rightarrow> bool \<Rightarrow> ChatState \<Rightarrow> ChatState" where
  "initSpeechRecognition language supported st =
     (if supported then
        st\<lparr>recognitionRef := Some
             \<lparr> continuous = False, interimResults = False,
               lang = (if language = Hi then ascii ''hi-IN'' else ascii ''en-US'') \<rparr>\<rparr>
      else st)"

definition onstart :: "ChatState \<Rightarrow> ChatState" where
  "onstart st = st\<lparr>isListening := True\<rparr>"

definition onresult :: "jsstring \<Rightarrow> ChatState \<Rightarrow> ChatState" where
  "onresult transcript st = st\<lparr>inputValue := transcript, isListening := False\<rparr>"

definition onend :: "ChatState \<Rightarrow> ChatState" where
  "onend st = st\<lparr>isListening := False\<rparr>"

text \<open>The \<^verbatim>\<open>switch\<close> of \<^verbatim>\<open>onerror\<close> on \<^verbatim>\<open>event.error\<close>.\<close>

definition errorMessage :: "Language \<Rightarrow> jsstring \<Rightarrow> jsstring" where
  "errorMessage language error =
     (if error = ascii ''not-allowed'' then
        (if language = Hi then hi_micAllow else ascii ''Please allow microphone access'')
      else if error = ascii ''no-speech'' then
        (if language = Hi then hi_noSpeech else ascii ''No speech detected'')
      else
        (if language = Hi then hi_voiceError else ascii ''Voice recognition error''))"

definition onerror :: "Language \<Rightarrow> jsstring \<Rightarrow> int \<Rightarrow> int \<Rightarrow> ChatState \<Rightarrow> ChatState" where
  "onerror language error now date st =
     appendMessage
       \<lparr> id' = toString now, text' = errorMessage language error, isUser = False,
         timestamp = date, data = None, showChart = None, showComparison = None,
         suggestions = None \<rparr>
       (st\<lparr>isListening := False\<rparr>)"

text \<open>A call that may throw: \<^verbatim>\<open>recognitionRef.current.start()\<close> throws or returns, as
  the platform decides.\<close>

datatype 'a Completion = Returns 'a | Throws

text \<open>
  \<^verbatim>\<open>startListening\<close>. \<open>protocol\<close> and \<open>hostname\<close> are \<^verbatim>\<open>location.protocol\<close> and
  \<^verbatim>\<open>location.hostname\<close>, \<open>start\<close> is what the call of \<^verbatim>\<open>start()\<close> does. The result
  is the new state and whether \<^verbatim>\<open>start()\<close> was called and returned, that is, whether
  a recognition session was started.
\<close>

definition startListening ::
  "Language \<Rightarrow> jsstring \<Rightarrow> jsstring \<Rightarrow> unit Completion \<Rightarrow> int \<Rightarrow> int \<Rightarrow> ChatState
     \<Rightarrow> (ChatState \<times> bool) Completion"
where
  "startListening language protocol hostname start now date st =
     (if recognitionRef st = None then
        Returns (appendMessage
          \<lparr> id' = toString now,
            text' = (if language = Hi then hi_voiceNotAvailable
                     else ascii ''Voice recognition not available''),
            isUser = False, timestamp = date, data = None, showChart = None,
            showComparison = None, suggestions = None \<rparr> st, False)
      else if protocol \<noteq> ascii ''https:'' \<and> hostname \<noteq> ascii ''localhost'' then
        Returns (appendMessage
          \<lparr> id' = toString now,
            text' = (if language = Hi then hi_httpsRequired
                     else ascii ''HTTPS connection required for voice''),
            isUser = False, timestamp = date, data = None, showChart = None,
            showComparison = None, suggestions = None \<rparr> st, False)
      else
        (case start of
           Returns u \<Rightarrow> Returns (st, True)
         | Throws \<Rightarrow>
             Returns (appendMessage
               \<lparr> id' = toString now,
                 text' = (if language = Hi then hi_couldNotStart
                          else ascii ''Could not start voice recognition''),
                 isUser = False, timestamp = date, data = None, showChart = None,
                 showComparison = None, suggestions = None \<rparr>
               (st\<lparr>isListening := False\<rparr>), False)))"

section \<open>The geolocation greeter\<close>

definition welcomeMessage :: "Language \<Rightarrow> int \<Rightarrow> int \<Rightarrow> Message" where
  "welcomeMessage language now date =
     \<lparr> id' = toString now,
       text' = (if language = Hi then hi_locationFound
                else ascii ''Location found! I can now provide groundwater information for your area.''),
       isUser = False,
       timestamp = date,
       data = None, showChart = None, showComparison = None,
       suggestions = Some
         [if language = Hi then hi_sugMyAreaQuality else ascii ''How is water quality in my area?'',
          if language = Hi then hi_sugShowLevels else ascii ''Show water levels'',
          if language = Hi then hi_sugFiveYear else ascii ''5-year prediction''] \<rparr>"

definition deniedMessage :: "Language \<Rightarrow> int \<Rightarrow> int \<Rightarrow> Message" where
  \<comment> \<open>the \<^verbatim>\<open>errorMessage\<close> object of the error callback\<close>
  "deniedMessage language now date =
     \<lparr> id' = toString now,
       text' = (if language = Hi then hi_locationDenied
                else ascii ''Location permission denied. You can still ask about any location.''),
       isUser = False,
       timestamp = date,
       data = None, showChart = None, showComparison = None,
       suggestions = Some
         [if language = Hi then hi_sugDelhiQuality else ascii ''Water quality in Delhi'',
          if language = Hi then hi_sugMumbaiPune else ascii ''Compare Mumbai and Pune'',
          if language = Hi then hi_sugBangaloreData else ascii ''Bangalore data''] \<rparr>"

text \<open>The two callbacks handed to \<^verbatim>\<open>getCurrentPosition\<close>; \<open>language\<close> is the value
  they captured. \<^verbatim>\<open>setMessages([m])\<close> replaces the store.\<close>

definition positionCallback ::
  "Language \<Rightarrow> real \<Rightarrow> real \<Rightarrow> int \<Rightarrow> int \<Rightarrow> ChatState \<Rightarrow> ChatState" where
  "positionCallback language lat lon now date st =
     st\<lparr>userLocation := Some \<lparr> latitude = lat, longitude = lon, city = None, state = None \<rparr>,
        locationPermission := Granted,
        messages := [welcomeMessage language now date]\<rparr>"

definition positionErrorCallback :: "Language \<Rightarrow> int \<Rightarrow> int \<Rightarrow> ChatState \<Rightarrow> ChatState" where
  "positionErrorCallback language now date st =
     st\<lparr>locationPermission := Denied, messages := [deniedMessage language now date]\<rparr>"

text \<open>What the platform does with the request: it has no \<^verbatim>\<open>navigator.geolocation\<close>,
  it delivers a position, or it calls the error callback (permission denied, position
  unavailable or timeout; the callback ignores which).\<close>

datatype PositionError = PERMISSION_DENIED | POSITION_UNAVAILABLE | TIMEOUT

datatype GeoOutcome = NoGeolocation | Position real real | Failed PositionError

text \<open>\<^verbatim>\<open>requestLocationPermission\<close> together with the callback the platform
  invokes, run without anything in between.\<close>

definition requestLocationPermission ::
  "Language \<Rightarrow> GeoOutcome \<Rightarrow> int \<Rightarrow> int \<Rightarrow> ChatState \<Rightarrow> ChatState" where
  "requestLocationPermission language outcome now date st =
     (case outcome of
        NoGeolocation \<Rightarrow> st\<lparr>locationPermission := Denied\<rparr>
      | Position lat lon \<Rightarrow> positionCallback language lat lon now date st
      | Failed e \<Rightarrow> positionErrorCallback language now date st)"

section \<open>The orchestrator\<close>

text \<open>What the suspended \<^verbatim>\<open>generateResponse\<close> call holds while its timer runs: its
  argument and the \<^verbatim>\<open>language\<close> and \<^verbatim>\<open>userLocation\<close> of the render that made the
  call.\<close>

record Awaited =
  awaitedMessage :: jsstring
  awaitedLanguage :: Language
  awaitedLocation :: "LocationData option"

text \<open>\<^verbatim>\<open>handleSendMessage\<close> up to its \<^verbatim>\<open>await\<close>: the new state and the suspended
  call, if one was made.\<close>

definition handleSendMessage ::
  "Language \<Rightarrow> int \<Rightarrow> int \<Rightarrow> ChatState \<Rightarrow> ChatState \<times> Awaited option" where
  "handleSendMessage language now date st =
     (if trim (inputValue st) = [] then (st, None)
      else
        ((appendMessage
            \<lparr> id' = toString now, text' = inputValue st, isUser = True, timestamp = date,
              data = None, showChart = None, showComparison = None, suggestions = None \<rparr> st)
           \<lparr>inputValue := [], isProcessing := True\<rparr>,
         Some \<lparr> awaitedMessage = inputValue st, awaitedLanguage = language,
                awaitedLocation = userLocation st \<rparr>))"

text \<open>The rest of \<^verbatim>\<open>handleSendMessage\<close>, once the timer has fired: \<open>st\<close> is the state
  at that moment, \<open>now\<close> and \<open>date\<close> are the clock readings of the response.\<close>

definition handleSendMessage_resume ::
  "(jsstring \<Rightarrow> jsstring) \<Rightarrow> Awaited \<Rightarrow> int \<Rightarrow> int \<Rightarrow> ChatState \<Rightarrow> ChatState" where
  "handleSendMessage_resume toLowerCase a now date st =
     (appendMessage
        (generateResponse toLowerCase (awaitedLanguage a) (awaitedLocation a) now date
           (awaitedMessage a)) st)
       \<lparr>isProcessing := False\<rparr>"

text \<open>A whole call with nothing in between: \<open>now\<close>, \<open>date\<close> are the readings for the
  user message and \<open>now'\<close>, \<open>date'\<close> those for the response.\<close>

definition submit ::
  "(jsstring \<Rightarrow> jsstring) \<Rightarrow> Language \<Rightarrow> int \<Rightarrow> int \<Rightarrow> int \<Rightarrow> int \<Rightarrow> ChatState \<Rightarrow> ChatState" where
  "submit toLowerCase language now date now' date' st =
     (case handleSendMessage language now date st of
        (st1, None) \<Rightarrow> st1
      | (st1, Some a) \<Rightarrow> handleSendMessage_resume toLowerCase a now' date' st1)"


definition handleSampleQuery :: "jsstring \<Rightarrow> ChatState \<Rightarrow> ChatState" where
  "handleSampleQuery query st = st\<lparr>inputValue := query\<rparr>"

subsection \<open>The controls\<close>





section \<open>The page\<close>

text \<open>\<^verbatim>\<open>Index\<close> holds the language and hands it to the chat with its setter.\<close>

record Index =
  language :: Language
  chat :: ChatState

definition initialIndex :: Index where
  "initialIndex = \<lparr> language = En, chat = initialState \<rparr>"

text \<open>\<^verbatim>\<open>onLanguageChange\<close>: the setter of \<^verbatim>\<open>Index\<close>, followed by the effect of the chat
  that depends on the language.\<close>

definition onLanguageChange :: "bool \<Rightarrow> Language \<Rightarrow> Index \<Rightarrow> Index" where
  "onLanguageChange supported l ix =
     \<lparr> language = l, chat = initSpeechRecognition l supported (chat ix) \<rparr>"

definition clickLanguage :: "bool \<Rightarrow> Index \<Rightarrow> Index" where
  \<comment> \<open>the button of the header\<close>
  "clickLanguage supported ix =
     onLanguageChange supported (if language ix = En then Hi else En) ix"

section \<open>Notions used to state the properties\<close>

text \<open>A text is localised in English when all its code units are Basic Latin, and in
  Hindi when it has a code unit of the Devanagari block.\<close>

definition isEnglish :: "jsstring \<Rightarrow> bool" where
  "isEnglish s = list_all (\<lambda>c. c < 0x0080) s"

definition isHindi :: "jsstring \<Rightarrow> bool" where
  "isHindi s = list_ex (\<lambda>c. 0x0900 \<le> c \<and> c \<le> 0x097F) s"

definition localizedIn :: "Language \<Rightarrow> jsstring \<Rightarrow> bool" where
  "localizedIn l s = (case l of En \<Rightarrow> isEnglish s | Hi \<Rightarrow> isHindi s)"

text \<open>A stored message is a greeting (a fallback) when it is an assistant message with
  the text of the position callback (of the error callback) in one of the languages.\<close>

definition isGreeting :: "Message \<Rightarrow> bool" where
  "isGreeting m \<longleftrightarrow>
     \<not> isUser m \<and> (text' m = text' (welcomeMessage En 0 0) \<or> text' m = text' (welcomeMessage Hi 0 0))"

definition isFallback :: "Message \<Rightarrow> bool" where
  "isFallback m \<longleftrightarrow>
     \<not> isUser m \<and> (text' m = text' (deniedMessage En 0 0) \<or> text' m = text' (deniedMessage Hi 0 0))"

definition greeterMessages :: "ChatState \<Rightarrow> Message list" where
  "greeterMessages st = filter (\<lambda>m. isGreeting m \<or> isFallback m) (messages st)"

text \<open>
  The states of the chat: the initial one, closed under every handler and callback of
  the component, at any moment, in any language, with any clock reading and any
  suspended call (typing into the input field sets the input as \<^verbatim>\<open>handleSampleQuery\<close>
  does). Every state the running component goes through is among them (the relation
  also admits a handler where a disabled control or the platform would not deliver the
  event), so a property of all of them is a property of the component.
\<close>

inductive reachable :: "(jsstring \<Rightarrow> jsstring) \<Rightarrow> ChatState \<Rightarrow> bool"
  for toLowerCase :: "jsstring \<Rightarrow> jsstring"
where
  r_initial: "reachable toLowerCase initialState"
| r_effect: "reachable toLowerCase st \<Longrightarrow> reachable toLowerCase (initSpeechRecognition l supported st)"
| r_geolocation:
    "reachable toLowerCase st \<Longrightarrow> reachable toLowerCase (requestLocationPermission l outcome now date st)"
| r_onstart: "reachable toLowerCase st \<Longrightarrow> reachable toLowerCase (onstart st)"
| r_onresult: "reachable toLowerCase st \<Longrightarrow> reachable toLowerCase (onresult transcript st)"
| r_onerror: "reachable toLowerCase st \<Longrightarrow> reachable toLowerCase (onerror l err now date st)"
| r_onend: "reachable toLowerCase st \<Longrightarrow> reachable toLowerCase (onend st)"
| r_startListening:
    "reachable toLowerCase st \<Longrightarrow> startListening l protocol hostname start now date st = Returns (st', b)
       \<Longrightarrow> reachable toLowerCase st'"
| r_send:
    "reachable toLowerCase st \<Longrightarrow> handleSendMessage l now date st = (st', a)
       \<Longrightarrow> reachable toLowerCase st'"
| r_resume:
    "reachable toLowerCase st \<Longrightarrow> reachable toLowerCase (handleSendMessage_resume toLowerCase a now date st)"
| r_sample: "reachable toLowerCase st \<Longrightarrow> reachable toLowerCase (handleSampleQuery query st)"

text \<open>
  The same states, together with the set of the clock readings that \<^verbatim>\<open>Date.now()\<close> has
  returned at the creation of a message, for the runs in which no reading is returned
  for two messages.
\<close>

inductive runs :: "(jsstring \<Rightarrow> jsstring) \<Rightarrow> int set \<Rightarrow> ChatState \<Rightarrow> bool"
  for toLowerCase :: "jsstring \<Rightarrow> jsstring"
where
  t_initial: "runs toLowerCase {} initialState"
| t_effect: "runs toLowerCase T st \<Longrightarrow> runs toLowerCase T (initSpeechRecognition l supported st)"
| t_no_geolocation:
    "runs toLowerCase T st
       \<Longrightarrow> runs toLowerCase T (requestLocationPermission l NoGeolocation now date st)"
| t_position:
    "runs toLowerCase T st \<Longrightarrow> now \<notin> T
       \<Longrightarrow> runs toLowerCase (insert now T) (positionCallback l lat lon now date st)"
| t_position_error:
    "runs toLowerCase T st \<Longrightarrow> now \<notin> T
       \<Longrightarrow> runs toLowerCase (insert now T) (positionErrorCallback l now date st)"
| t_onstart: "runs toLowerCase T st \<Longrightarrow> runs toLowerCase T (onstart st)"
| t_onresult: "runs toLowerCase T st \<Longrightarrow> runs toLowerCase T (onresult transcript st)"
| t_onerror:
    "runs toLowerCase T st \<Longrightarrow> now \<notin> T
       \<Longrightarrow> runs toLowerCase (insert now T) (onerror l err now date st)"
| t_onend: "runs toLowerCase T st \<Longrightarrow> runs toLowerCase T (onend st)"
| t_startListening:
    "runs toLowerCase T st \<Longrightarrow> now \<notin> T
       \<Longrightarrow> startListening l protocol hostname start now date st = Returns (st', b)
       \<Longrightarrow> runs toLowerCase (insert now T) st'"
| t_send:
    "runs toLowerCase T st \<Longrightarrow> now \<notin> T \<Longrightarrow> handleSendMessage l now date st = (st', a)
       \<Longrightarrow> runs toLowerCase (insert now T) st'"
| t_resume:
    "runs toLowerCase T st \<Longrightarrow> now \<notin> T
       \<Longrightarrow> runs toLowerCase (insert now T) (handleSendMessage_resume toLowerCase a now date st)"
| t_sample: "runs toLowerCase T st \<Longrightarrow> runs toLowerCase T (handleSampleQuery query st)"

section \<open>Facts about the string operations\<close>

lemmas hi_defs =
  hi_micAllow_def hi_noSpeech_def hi_voiceError_def hi_locationFound_def 
  hi_sugMyAreaQuality_def hi_sugShowLevels_def hi_sugFiveYear_def hi_locationDenied_def 
  hi_sugDelhiQuality_def hi_sugMumbaiPune_def hi_sugBangaloreData_def 
  hi_voiceNotAvailable_def hi_httpsRequired_def hi_couldNotStart_def hi_quality_def 
  hi_sugLevelTrends_def hi_sugCompareOthers_def hi_sugFuturePredictions_def hi_compare_def 
  hi_comparisonText_def hi_sugAddCities_def hi_sugDetailedReport_def hi_sugDownloadData_def 
  hi_predict_def hi_predictionText_def hi_sugRiskAnalysis_def hi_sugRecommendations_def 
  hi_sugSetAlerts_def hi_level_def hi_sugHistorical_def hi_sugMonthly_def 
  hi_sugOtherLocations_def hi_helpText_def hi_sugCheckQuality_def hi_sugCompareCities_def 
  hi_sugFutureReports_def hi_yourArea_def hi_thisArea_def hi_qualityTail_def 
  hi_levelTail_def

lemmas response_defs =
  qualityResponse_def comparisonResponse_def predictionResponse_def levelResponse_def
  helpResponse_def

lemma isPrefixOf_iff: "isPrefixOf k s \<longleftrightarrow> (\<exists>q. s = k @ q)"
  by (induction k s rule: isPrefixOf.induct) auto

lemma includes_str_iff: "includes_str s k \<longleftrightarrow> (\<exists>p q. s = p @ k @ q)"
proof (induction s)
  case Nil
  then show ?case by simp
next
  case (Cons c cs)
  show ?case
  proof
    assume "includes_str (c # cs) k"
    then consider "isPrefixOf k (c # cs)" | "includes_str cs k" by auto
    then show "\<exists>p q. c # cs = p @ k @ q"
    proof cases
      case 1
      then obtain q where "c # cs = k @ q" by (auto simp: isPrefixOf_iff)
      then have "c # cs = [] @ k @ q" by simp
      then show ?thesis by blast
    next
      case 2
      then obtain p q where "cs = p @ k @ q" using Cons.IH by blast
      then have "c # cs = (c # p) @ k @ q" by simp
      then show ?thesis by blast
    qed
  next
    assume "\<exists>p q. c # cs = p @ k @ q"
    then obtain p q where pq: "c # cs = p @ k @ q" by blast
    show "includes_str (c # cs) k"
    proof (cases p)
      case Nil
      with pq have "isPrefixOf k (c # cs)" by (auto simp: isPrefixOf_iff)
      then show ?thesis by simp
    next
      case (Cons a p')
      with pq have "cs = p' @ k @ q" by simp
      then have "includes_str cs k" using Cons.IH by blast
      then show ?thesis by simp
    qed
  qed
qed

section \<open>The intent dispatcher: classification and output shape\<close>

lemma spec_classify_cases:
  "spec_classify s =
     (if includes_str s (ascii ''quality'') \<or> includes_str s hi_quality then Quality
      else if includes_str s (ascii ''compare'') \<or> includes_str s hi_compare then Comparison
      else if includes_str s (ascii ''predict'') \<or> includes_str s hi_predict then Prediction
      else if includes_str s (ascii ''level'') \<or> includes_str s hi_level then Level
      else Help)"
  by (simp add: spec_classify_def keywordTable_def)

lemma generateResponse_classify:
  "generateResponse lc l loc now date t = intentResponse (spec_classify (lc t)) l loc now date"
  by (simp add: generateResponse_def spec_classify_cases intentResponse_def Let_def)

lemma intentResponse_chartFlag:
  "chartFlag (intentResponse i l loc now date) = (i = Quality \<or> i = Prediction \<or> i = Level)"
  by (cases i) (simp_all add: intentResponse_def response_defs chartFlag_def)

lemma intentResponse_comparisonFlag:
  "comparisonFlag (intentResponse i l loc now date) = (i = Comparison)"
  by (cases i) (simp_all add: intentResponse_def response_defs comparisonFlag_def)

lemma intentResponse_predictionMarker:
  "predictionMarker (intentResponse i l loc now date) = (i = Prediction)"
  by (cases i) (simp_all add: intentResponse_def response_defs predictionMarker_def)

lemma intentResponse_three:
  "\<exists>a b c. suggestions (intentResponse i l loc now date) = Some [a, b, c]"
  by (cases i) (simp_all add: intentResponse_def response_defs)

lemma intentResponse_text_distinct:
  "distinct (map (\<lambda>i. text' (intentResponse i l loc now date))
     [Quality, Comparison, Prediction, Level, Help])"
  by (cases l; cases loc; simp add: intentResponse_def response_defs ascii_def hi_defs)

lemma intentResponse_suggestions_en:
  "suggestions (intentResponse i En loc now date) = Some ss \<Longrightarrow> list_all isEnglish ss"
  by (cases i; simp add: intentResponse_def response_defs; auto simp add: isEnglish_def ascii_def)

lemma intentResponse_suggestions_hi:
  "suggestions (intentResponse i Hi loc now date) = Some ss \<Longrightarrow> list_all isHindi ss"
  by (cases i; simp add: intentResponse_def response_defs; auto simp add: isHindi_def hi_defs)

lemma intentResponse_suggestions_localized:
  "suggestions (intentResponse i l loc now date) = Some ss \<Longrightarrow> list_all (localizedIn l) ss"
proof (cases l)
  case En
  assume "suggestions (intentResponse i l loc now date) = Some ss"
  with En have "list_all isEnglish ss" by (auto dest: intentResponse_suggestions_en)
  with En show ?thesis by (simp add: localizedIn_def list_all_iff)
next
  case Hi
  assume "suggestions (intentResponse i l loc now date) = Some ss"
  with Hi have "list_all isHindi ss" by (auto dest: intentResponse_suggestions_hi)
  with Hi show ?thesis by (simp add: localizedIn_def list_all_iff)
qed

lemma generateResponse_three_localized:
  "\<exists>a b c. suggestions (generateResponse lc l loc now date t) = Some [a, b, c]
     \<and> localizedIn l a \<and> localizedIn l b \<and> localizedIn l c"
proof -
  obtain a b c
    where abc: "suggestions (intentResponse (spec_classify (lc t)) l loc now date) = Some [a, b, c]"
    using intentResponse_three by blast
  from intentResponse_suggestions_localized [OF abc]
  have "localizedIn l a \<and> localizedIn l b \<and> localizedIn l c" by simp
  with abc show ?thesis by (auto simp add: generateResponse_classify)
qed

text \<open>
  Claim C3. The classification of \<^verbatim>\<open>generateResponse\<close> is the first match, on the
  lower-cased text, in the order quality, compare, predict, level, and the default
  when no keyword occurs: the response is the one of the intent that the ordered
  keyword table of the specification selects, the response depends on the text only
  through its lower-cased form, and the five responses have different texts. In
  particular a text whose lower-cased form has a quality keyword and a comparison
  keyword gets the chart flag and not the comparison flag.
\<close>

theorem generateResponse_first_match_wins:
  "generateResponse lc l loc now date t = intentResponse (spec_classify (lc t)) l loc now date
   \<and> (lc t = lc t' \<longrightarrow>
        generateResponse lc l loc now date t = generateResponse lc l loc now date t')
   \<and> distinct (map (\<lambda>i. text' (intentResponse i l loc now date))
        [Quality, Comparison, Prediction, Level, Help])
   \<and> ((includes_str (lc t) (ascii ''quality'') \<or> includes_str (lc t) hi_quality)
        \<and> (includes_str (lc t) (ascii ''compare'') \<or> includes_str (lc t) hi_compare)
      \<longrightarrow> generateResponse lc l loc now date t = qualityResponse l loc now date
          \<and> chartFlag (generateResponse lc l loc now date t)
          \<and> \<not> comparisonFlag (generateResponse lc l loc now date t))"
proof (intro conjI impI)
  show "generateResponse lc l loc now date t = intentResponse (spec_classify (lc t)) l loc now date"
    by (rule generateResponse_classify)
  show "generateResponse lc l loc now date t = generateResponse lc l loc now date t'"
    if "lc t = lc t'"
    using that by (simp add: generateResponse_classify)
  show "distinct (map (\<lambda>i. text' (intentResponse i l loc now date))
      [Quality, Comparison, Prediction, Level, Help])"
    by (rule intentResponse_text_distinct)
next
  assume both: "(includes_str (lc t) (ascii ''quality'') \<or> includes_str (lc t) hi_quality)
      \<and> (includes_str (lc t) (ascii ''compare'') \<or> includes_str (lc t) hi_compare)"
  then have q: "spec_classify (lc t) = Quality"
    by (simp add: spec_classify_cases)
  show "generateResponse lc l loc now date t = qualityResponse l loc now date"
    by (simp add: generateResponse_classify q intentResponse_def)
  show "chartFlag (generateResponse lc l loc now date t)"
    by (simp add: generateResponse_classify q intentResponse_chartFlag)
  show "\<not> comparisonFlag (generateResponse lc l loc now date t)"
    by (simp add: generateResponse_classify q intentResponse_comparisonFlag)
qed

theorem generateResponse_first_match_wins_witness:
  "includes_str (toLowerCase_ascii (ascii ''COMPARE the Quality'')) (ascii ''quality'')
   \<and> includes_str (toLowerCase_ascii (ascii ''COMPARE the Quality'')) (ascii ''compare'')
   \<and> chartFlag (generateResponse toLowerCase_ascii En None 1700000001000 1700000001000
        (ascii ''COMPARE the Quality''))
   \<and> \<not> comparisonFlag (generateResponse toLowerCase_ascii En None 1700000001000 1700000001000
        (ascii ''COMPARE the Quality''))
   \<and> includes_str (toLowerCase_ascii (hi_compare @ hi_quality)) hi_quality
   \<and> includes_str (toLowerCase_ascii (hi_compare @ hi_quality)) hi_compare
   \<and> chartFlag (generateResponse toLowerCase_ascii Hi None 1700000001000 1700000001000
        (hi_compare @ hi_quality))
   \<and> \<not> comparisonFlag (generateResponse toLowerCase_ascii Hi None 1700000001000 1700000001000
        (hi_compare @ hi_quality))"
proof -
  have q: "includes_str (toLowerCase_ascii (ascii ''COMPARE the Quality'')) (ascii ''quality'')"
    by (simp add: toLowerCase_ascii_def ascii_def)
  have c: "includes_str (toLowerCase_ascii (ascii ''COMPARE the Quality'')) (ascii ''compare'')"
    by (simp add: toLowerCase_ascii_def ascii_def)
  have hq: "includes_str (toLowerCase_ascii (hi_compare @ hi_quality)) hi_quality"
    by (simp add: toLowerCase_ascii_def hi_quality_def hi_compare_def)
  have hc: "includes_str (toLowerCase_ascii (hi_compare @ hi_quality)) hi_compare"
    by (simp add: toLowerCase_ascii_def hi_quality_def hi_compare_def)
  have en: "chartFlag (generateResponse toLowerCase_ascii En None 1700000001000 1700000001000
        (ascii ''COMPARE the Quality''))
     \<and> \<not> comparisonFlag (generateResponse toLowerCase_ascii En None 1700000001000 1700000001000
        (ascii ''COMPARE the Quality''))"
    using generateResponse_first_match_wins
            [of toLowerCase_ascii En None 1700000001000 1700000001000
                "ascii ''COMPARE the Quality''"] q c
    by blast
  have hi: "chartFlag (generateResponse toLowerCase_ascii Hi None 1700000001000 1700000001000
        (hi_compare @ hi_quality))
     \<and> \<not> comparisonFlag (generateResponse toLowerCase_ascii Hi None 1700000001000 1700000001000
        (hi_compare @ hi_quality))"
    using generateResponse_first_match_wins
            [of toLowerCase_ascii Hi None 1700000001000 1700000001000
                "hi_compare @ hi_quality"] hq hc
    by blast
  from q c hq hc en hi show ?thesis by blast
qed

text \<open>
  Claim C4. The output shape of each intent: the quality intent gives the chart flag,
  no comparison flag and no prediction marker; the comparison intent gives the
  comparison flag and no chart flag; the prediction intent gives the chart flag and a
  payload whose prediction marker is true; the level intent gives the chart flag; a
  text with none of the keywords gives the default help message, with no chart, no
  comparison and the default suggestions; and every response carries exactly three
  suggestions, each in the language of the response.
\<close>

theorem generateResponse_output_shape:
  "(spec_classify (lc t) = Quality \<longrightarrow>
      chartFlag (generateResponse lc l loc now date t)
      \<and> \<not> comparisonFlag (generateResponse lc l loc now date t)
      \<and> \<not> predictionMarker (generateResponse lc l loc now date t)
      \<and> data (generateResponse lc l loc now date t) = None)
   \<and> (spec_classify (lc t) = Comparison \<longrightarrow>
      comparisonFlag (generateResponse lc l loc now date t)
      \<and> \<not> chartFlag (generateResponse lc l loc now date t))
   \<and> (spec_classify (lc t) = Prediction \<longrightarrow>
      chartFlag (generateResponse lc l loc now date t)
      \<and> predictionMarker (generateResponse lc l loc now date t)
      \<and> data (generateResponse lc l loc now date t) = Some (Payload True))
   \<and> (spec_classify (lc t) = Level \<longrightarrow>
      chartFlag (generateResponse lc l loc now date t))
   \<and> (\<not> includes_str (lc t) (ascii ''quality'') \<and> \<not> includes_str (lc t) hi_quality
      \<and> \<not> includes_str (lc t) (ascii ''compare'') \<and> \<not> includes_str (lc t) hi_compare
      \<and> \<not> includes_str (lc t) (ascii ''predict'') \<and> \<not> includes_str (lc t) hi_predict
      \<and> \<not> includes_str (lc t) (ascii ''level'') \<and> \<not> includes_str (lc t) hi_level \<longrightarrow>
      generateResponse lc l loc now date t = helpResponse l now date
      \<and> \<not> chartFlag (generateResponse lc l loc now date t)
      \<and> \<not> comparisonFlag (generateResponse lc l loc now date t)
      \<and> suggestions (generateResponse lc l loc now date t) = Some
          [if l = Hi then hi_sugCheckQuality else ascii ''Check water quality'',
           if l = Hi then hi_sugCompareCities else ascii ''Compare cities'',
           if l = Hi then hi_sugFutureReports else ascii ''Future reports''])
   \<and> (\<exists>a b c. suggestions (generateResponse lc l loc now date t) = Some [a, b, c]
        \<and> localizedIn l a \<and> localizedIn l b \<and> localizedIn l c)"
proof -
  let ?r = "generateResponse lc l loc now date t"
  let ?i = "spec_classify (lc t)"
  have r: "?r = intentResponse ?i l loc now date"
    by (rule generateResponse_classify)
  have quality: "?i = Quality \<longrightarrow>
      chartFlag ?r \<and> \<not> comparisonFlag ?r \<and> \<not> predictionMarker ?r \<and> data ?r = None"
    by (simp add: r intentResponse_chartFlag intentResponse_comparisonFlag
          intentResponse_predictionMarker)
       (simp add: intentResponse_def qualityResponse_def)
  have comparison: "?i = Comparison \<longrightarrow> comparisonFlag ?r \<and> \<not> chartFlag ?r"
    by (simp add: r intentResponse_chartFlag intentResponse_comparisonFlag)
  have prediction: "?i = Prediction \<longrightarrow>
      chartFlag ?r \<and> predictionMarker ?r \<and> data ?r = Some (Payload True)"
    by (simp add: r intentResponse_chartFlag intentResponse_predictionMarker)
       (simp add: intentResponse_def predictionResponse_def)
  have level: "?i = Level \<longrightarrow> chartFlag ?r"
    by (simp add: r intentResponse_chartFlag)
  have dflt: "\<not> includes_str (lc t) (ascii ''quality'') \<and> \<not> includes_str (lc t) hi_quality
      \<and> \<not> includes_str (lc t) (ascii ''compare'') \<and> \<not> includes_str (lc t) hi_compare
      \<and> \<not> includes_str (lc t) (ascii ''predict'') \<and> \<not> includes_str (lc t) hi_predict
      \<and> \<not> includes_str (lc t) (ascii ''level'') \<and> \<not> includes_str (lc t) hi_level \<longrightarrow>
      ?r = helpResponse l now date \<and> \<not> chartFlag ?r \<and> \<not> comparisonFlag ?r
      \<and> suggestions ?r = Some
          [if l = Hi then hi_sugCheckQuality else ascii ''Check water quality'',
           if l = Hi then hi_sugCompareCities else ascii ''Compare cities'',
           if l = Hi then hi_sugFutureReports else ascii ''Future reports'']"
  proof
    assume "\<not> includes_str (lc t) (ascii ''quality'') \<and> \<not> includes_str (lc t) hi_quality
      \<and> \<not> includes_str (lc t) (ascii ''compare'') \<and> \<not> includes_str (lc t) hi_compare
      \<and> \<not> includes_str (lc t) (ascii ''predict'') \<and> \<not> includes_str (lc t) hi_predict
      \<and> \<not> includes_str (lc t) (ascii ''level'') \<and> \<not> includes_str (lc t) hi_level"
    then have i: "?i = Help"
      by (simp add: spec_classify_cases)
    have "?r = helpResponse l now date"
      by (simp add: r i intentResponse_def)
    moreover have "\<not> chartFlag ?r" "\<not> comparisonFlag ?r"
      by (simp_all add: r i intentResponse_chartFlag intentResponse_comparisonFlag)
    moreover have "suggestions (helpResponse l now date) = Some
          [if l = Hi then hi_sugCheckQuality else ascii ''Check water quality'',
           if l = Hi then hi_sugCompareCities else ascii ''Compare cities'',
           if l = Hi then hi_sugFutureReports else ascii ''Future reports'']"
      by (simp add: helpResponse_def)
    ultimately show "?r = helpResponse l now date \<and> \<not> chartFlag ?r \<and> \<not> comparisonFlag ?r
      \<and> suggestions ?r = Some
          [if l = Hi then hi_sugCheckQuality else ascii ''Check water quality'',
           if l = Hi then hi_sugCompareCities else ascii ''Compare cities'',
           if l = Hi then hi_sugFutureReports else ascii ''Future reports'']"
      by simp
  qed
  have three: "\<exists>a b c. suggestions ?r = Some [a, b, c]
        \<and> localizedIn l a \<and> localizedIn l b \<and> localizedIn l c"
    by (rule generateResponse_three_localized)
  from quality comparison prediction level dflt three show ?thesis
    by blast
qed

theorem generateResponse_output_shape_witness:
  "spec_classify (toLowerCase_ascii (ascii ''Show groundwater quality in Delhi'')) = Quality
   \<and> chartFlag (generateResponse toLowerCase_ascii En None 1700000001000 1700000001000
        (ascii ''Show groundwater quality in Delhi''))
   \<and> \<not> comparisonFlag (generateResponse toLowerCase_ascii En None 1700000001000 1700000001000
        (ascii ''Show groundwater quality in Delhi''))
   \<and> \<not> predictionMarker (generateResponse toLowerCase_ascii En None 1700000001000 1700000001000
        (ascii ''Show groundwater quality in Delhi''))
   \<and> spec_classify (toLowerCase_ascii (ascii ''Compare water levels between Mumbai and Pune''))
       = Comparison
   \<and> comparisonFlag (generateResponse toLowerCase_ascii En None 1700000001000 1700000001000
        (ascii ''Compare water levels between Mumbai and Pune''))
   \<and> \<not> chartFlag (generateResponse toLowerCase_ascii En None 1700000001000 1700000001000
        (ascii ''Compare water levels between Mumbai and Pune''))
   \<and> spec_classify
        (toLowerCase_ascii (ascii ''Predict water levels for next 5 years in Bangalore''))
       = Prediction
   \<and> chartFlag (generateResponse toLowerCase_ascii En None 1700000001000 1700000001000
        (ascii ''Predict water levels for next 5 years in Bangalore''))
   \<and> predictionMarker (generateResponse toLowerCase_ascii En None 1700000001000 1700000001000
        (ascii ''Predict water levels for next 5 years in Bangalore''))
   \<and> spec_classify (toLowerCase_ascii (ascii ''Water Level today'')) = Level
   \<and> chartFlag (generateResponse toLowerCase_ascii En None 1700000001000 1700000001000
        (ascii ''Water Level today''))
   \<and> generateResponse toLowerCase_ascii En None 1700000001000 1700000001000 (ascii ''Hello'')
       = helpResponse En 1700000001000 1700000001000
   \<and> \<not> chartFlag (generateResponse toLowerCase_ascii En None 1700000001000 1700000001000
        (ascii ''Hello''))
   \<and> \<not> comparisonFlag (generateResponse toLowerCase_ascii En None 1700000001000 1700000001000
        (ascii ''Hello''))"
proof -
  have q: "spec_classify (toLowerCase_ascii (ascii ''Show groundwater quality in Delhi''))
      = Quality"
    by (simp add: spec_classify_cases toLowerCase_ascii_def ascii_def)
  have c: "spec_classify
      (toLowerCase_ascii (ascii ''Compare water levels between Mumbai and Pune'')) = Comparison"
    by (simp add: spec_classify_cases toLowerCase_ascii_def ascii_def hi_quality_def)
  have p: "spec_classify
      (toLowerCase_ascii (ascii ''Predict water levels for next 5 years in Bangalore''))
      = Prediction"
    by (simp add: spec_classify_cases toLowerCase_ascii_def ascii_def hi_quality_def
          hi_compare_def)
  have v: "spec_classify (toLowerCase_ascii (ascii ''Water Level today'')) = Level"
    by (simp add: spec_classify_cases toLowerCase_ascii_def ascii_def hi_quality_def
          hi_compare_def hi_predict_def)
  have h: "\<not> includes_str (toLowerCase_ascii (ascii ''Hello'')) (ascii ''quality'')
      \<and> \<not> includes_str (toLowerCase_ascii (ascii ''Hello'')) hi_quality
      \<and> \<not> includes_str (toLowerCase_ascii (ascii ''Hello'')) (ascii ''compare'')
      \<and> \<not> includes_str (toLowerCase_ascii (ascii ''Hello'')) hi_compare
      \<and> \<not> includes_str (toLowerCase_ascii (ascii ''Hello'')) (ascii ''predict'')
      \<and> \<not> includes_str (toLowerCase_ascii (ascii ''Hello'')) hi_predict
      \<and> \<not> includes_str (toLowerCase_ascii (ascii ''Hello'')) (ascii ''level'')
      \<and> \<not> includes_str (toLowerCase_ascii (ascii ''Hello'')) hi_level"
    by (simp add: toLowerCase_ascii_def ascii_def hi_quality_def hi_compare_def hi_predict_def
          hi_level_def)
  note shape = generateResponse_output_shape
      [of toLowerCase_ascii _ En None 1700000001000 1700000001000]
  from shape [of "ascii ''Show groundwater quality in Delhi''"] q
  have 1: "chartFlag (generateResponse toLowerCase_ascii En None 1700000001000 1700000001000
        (ascii ''Show groundwater quality in Delhi''))
     \<and> \<not> comparisonFlag (generateResponse toLowerCase_ascii En None 1700000001000 1700000001000
        (ascii ''Show groundwater quality in Delhi''))
     \<and> \<not> predictionMarker (generateResponse toLowerCase_ascii En None 1700000001000 1700000001000
        (ascii ''Show groundwater quality in Delhi''))"
    by blast
  from shape [of "ascii ''Compare water levels between Mumbai and Pune''"] c
  have 2: "comparisonFlag (generateResponse toLowerCase_ascii En None 1700000001000 1700000001000
        (ascii ''Compare water levels between Mumbai and Pune''))
     \<and> \<not> chartFlag (generateResponse toLowerCase_ascii En None 1700000001000 1700000001000
        (ascii ''Compare water levels between Mumbai and Pune''))"
    by blast
  from shape [of "ascii ''Predict water levels for next 5 years in Bangalore''"] p
  have 3: "chartFlag (generateResponse toLowerCase_ascii En None 1700000001000 1700000001000
        (ascii ''Predict water levels for next 5 years in Bangalore''))
     \<and> predictionMarker (generateResponse toLowerCase_ascii En None 1700000001000 1700000001000
        (ascii ''Predict water levels for next 5 years in Bangalore''))"
    by blast
  from shape [of "ascii ''Water Level today''"] v
  have 4: "chartFlag (generateResponse toLowerCase_ascii En None 1700000001000 1700000001000
        (ascii ''Water Level today''))"
    by blast
  from shape [of "ascii ''Hello''"] h
  have 5: "generateResponse toLowerCase_ascii En None 1700000001000 1700000001000 (ascii ''Hello'')
       = helpResponse En 1700000001000 1700000001000
     \<and> \<not> chartFlag (generateResponse toLowerCase_ascii En None 1700000001000 1700000001000
        (ascii ''Hello''))
     \<and> \<not> comparisonFlag (generateResponse toLowerCase_ascii En None 1700000001000 1700000001000
        (ascii ''Hello''))"
    by blast
  from q c p v 1 2 3 4 5 show ?thesis by blast
qed

text \<open>
  Claim C10. The classification does not depend on the language: for every text and
  every location state the chart flag, the comparison flag and the prediction payload
  of the response are the same under any two languages, and so are its id, its sender
  and its timestamp; the two responses differ at most in the text and the suggestions.
\<close>

theorem generateResponse_language_independent:
  "showChart (generateResponse lc l loc now date t) = showChart (generateResponse lc l' loc now date t)
   \<and> showComparison (generateResponse lc l loc now date t)
       = showComparison (generateResponse lc l' loc now date t)
   \<and> data (generateResponse lc l loc now date t) = data (generateResponse lc l' loc now date t)
   \<and> chartFlag (generateResponse lc l loc now date t)
       = chartFlag (generateResponse lc l' loc now date t)
   \<and> comparisonFlag (generateResponse lc l loc now date t)
       = comparisonFlag (generateResponse lc l' loc now date t)
   \<and> predictionMarker (generateResponse lc l loc now date t)
       = predictionMarker (generateResponse lc l' loc now date t)
   \<and> generateResponse lc l' loc now date t
       = (generateResponse lc l loc now date t)
           \<lparr>text' := text' (generateResponse lc l' loc now date t),
            suggestions := suggestions (generateResponse lc l' loc now date t)\<rparr>"
proof -
  have fields: "generateResponse lc l' loc now date t
       = (generateResponse lc l loc now date t)
           \<lparr>text' := text' (generateResponse lc l' loc now date t),
            suggestions := suggestions (generateResponse lc l' loc now date t)\<rparr>"
    by (cases "spec_classify (lc t)")
       (simp_all add: generateResponse_classify intentResponse_def response_defs)
  have flags: "showChart (generateResponse lc l loc now date t)
      = showChart (generateResponse lc l' loc now date t)
    \<and> showComparison (generateResponse lc l loc now date t)
      = showComparison (generateResponse lc l' loc now date t)
    \<and> data (generateResponse lc l loc now date t) = data (generateResponse lc l' loc now date t)"
    by (cases "spec_classify (lc t)")
       (simp_all add: generateResponse_classify intentResponse_def response_defs)
  then show ?thesis
    using fields by (simp add: chartFlag_def comparisonFlag_def predictionMarker_def)
qed

theorem generateResponse_language_independent_witness:
  "chartFlag (generateResponse toLowerCase_ascii En None 1700000001000 1700000001000 hi_sugFiveYear)
     = chartFlag (generateResponse toLowerCase_ascii Hi None 1700000001000 1700000001000 hi_sugFiveYear)
   \<and> predictionMarker
       (generateResponse toLowerCase_ascii En None 1700000001000 1700000001000 hi_sugFiveYear)
     = predictionMarker
       (generateResponse toLowerCase_ascii Hi None 1700000001000 1700000001000 hi_sugFiveYear)
   \<and> predictionMarker
       (generateResponse toLowerCase_ascii En None 1700000001000 1700000001000 hi_sugFiveYear)"
proof -
  have "spec_classify (toLowerCase_ascii hi_sugFiveYear) = Prediction"
    by (simp add: spec_classify_cases toLowerCase_ascii_def ascii_def hi_sugFiveYear_def
          hi_quality_def hi_compare_def hi_predict_def)
  then have "predictionMarker
       (generateResponse toLowerCase_ascii En None 1700000001000 1700000001000 hi_sugFiveYear)"
    by (simp add: generateResponse_classify intentResponse_predictionMarker)
  with generateResponse_language_independent
         [of toLowerCase_ascii En None 1700000001000 1700000001000 hi_sugFiveYear Hi]
  show ?thesis by blast
qed

section \<open>The orchestrator\<close>

lemma generateResponse_not_user: "\<not> isUser (generateResponse lc l loc now date t)"
  by (cases "spec_classify (lc t)")
     (simp_all add: generateResponse_classify intentResponse_def response_defs)

lemma intentResponse_text_en: "isEnglish (text' (intentResponse i En loc now date))"
  by (cases i; cases loc; simp add: intentResponse_def response_defs isEnglish_def ascii_def)

lemma intentResponse_text_hi: "isHindi (text' (intentResponse i Hi loc now date))"
  by (cases i; cases loc; simp add: intentResponse_def response_defs isHindi_def hi_defs)

lemma generateResponse_localized: "localizedIn l (text' (generateResponse lc l loc now date t))"
  by (cases l)
     (simp_all add: generateResponse_classify localizedIn_def intentResponse_text_en
        intentResponse_text_hi)

lemma handleSendMessage_accepts:
  "trim (inputValue st) \<noteq> [] \<Longrightarrow>
   handleSendMessage l now date st =
     (st\<lparr>messages := messages st @
           [\<lparr> id' = toString now, text' = inputValue st, isUser = True, timestamp = date,
              data = None, showChart = None, showComparison = None, suggestions = None \<rparr>],
         inputValue := [], isProcessing := True\<rparr>,
      Some \<lparr> awaitedMessage = inputValue st, awaitedLanguage = l,
             awaitedLocation = userLocation st \<rparr>)"
  by (simp add: handleSendMessage_def appendMessage_def)

lemma handleSendMessage_resume_messages:
  "messages (handleSendMessage_resume lc a now date st) =
     messages st @ [generateResponse lc (awaitedLanguage a) (awaitedLocation a) now date
       (awaitedMessage a)]"
  by (simp add: handleSendMessage_resume_def appendMessage_def)

text \<open>
  Claim C1. When the trimmed input is not empty, \<^verbatim>\<open>handleSendMessage\<close> appends exactly
  one user message, with the input as its text, to the store before it suspends (and
  clears the input and sets the processing flag); when it resumes it appends exactly
  one assistant message, the result of \<^verbatim>\<open>generateResponse\<close> on that input, to the store
  as it is then. A call that runs with nothing in between leaves the old store followed
  by the user message and then the assistant message; the operation only appends.
\<close>

theorem handleSendMessage_user_then_assistant:
  "trim (inputValue st) \<noteq> [] \<Longrightarrow>
   \<exists>u a. handleSendMessage l now date st =
       (st\<lparr>messages := messages st @ [u], inputValue := [], isProcessing := True\<rparr>, Some a)
     \<and> isUser u \<and> text' u = inputValue st \<and> id' u = toString now \<and> timestamp u = date
     \<and> (\<forall>st2 now2 date2.
          messages (handleSendMessage_resume lc a now2 date2 st2) =
            messages st2 @ [generateResponse lc l (userLocation st) now2 date2 (inputValue st)]
          \<and> \<not> isProcessing (handleSendMessage_resume lc a now2 date2 st2))
     \<and> \<not> isUser (generateResponse lc l (userLocation st) now' date' (inputValue st))
     \<and> messages (submit lc l now date now' date' st) =
         messages st @ [u, generateResponse lc l (userLocation st) now' date' (inputValue st)]"
proof -
  assume ne: "trim (inputValue st) \<noteq> []"
  let ?u = "\<lparr> id' = toString now, text' = inputValue st, isUser = True, timestamp = date,
              data = None, showChart = None, showComparison = None, suggestions = None \<rparr>"
  let ?a = "\<lparr> awaitedMessage = inputValue st, awaitedLanguage = l,
             awaitedLocation = userLocation st \<rparr>"
  have call: "handleSendMessage l now date st =
       (st\<lparr>messages := messages st @ [?u], inputValue := [], isProcessing := True\<rparr>, Some ?a)"
    using ne by (rule handleSendMessage_accepts)
  have resume: "\<forall>st2 now2 date2.
          messages (handleSendMessage_resume lc ?a now2 date2 st2) =
            messages st2 @ [generateResponse lc l (userLocation st) now2 date2 (inputValue st)]
          \<and> \<not> isProcessing (handleSendMessage_resume lc ?a now2 date2 st2)"
    by (simp add: handleSendMessage_resume_def appendMessage_def)
  have whole: "messages (submit lc l now date now' date' st) =
         messages st @ [?u, generateResponse lc l (userLocation st) now' date' (inputValue st)]"
    by (simp add: submit_def call handleSendMessage_resume_messages)
  have "isUser ?u \<and> text' ?u = inputValue st \<and> id' ?u = toString now \<and> timestamp ?u = date"
    by simp
  with call resume whole generateResponse_not_user show ?thesis
    by blast
qed

theorem handleSendMessage_user_then_assistant_witness:
  "trim (inputValue
      (handleSampleQuery (ascii ''Show groundwater quality in Delhi'') initialState)) \<noteq> []
   \<and> map isUser (messages (submit toLowerCase_ascii En 1700000000000 1700000000000
        1700000001000 1700000001000
        (handleSampleQuery (ascii ''Show groundwater quality in Delhi'') initialState)))
     = [True, False]"
proof -
  let ?st = "handleSampleQuery (ascii ''Show groundwater quality in Delhi'') initialState"
  have ne: "trim (inputValue ?st) \<noteq> []"
    by (simp add: handleSampleQuery_def trim_def ascii_def isWhiteSpace_def)
  have empty: "messages ?st = []"
    by (simp add: handleSampleQuery_def initialState_def)
  from handleSendMessage_user_then_assistant
         [OF ne, of En 1700000000000 1700000000000 toLowerCase_ascii 1700000001000 1700000001000]
  obtain u where "isUser u"
    and "\<not> isUser (generateResponse toLowerCase_ascii En (userLocation ?st) 1700000001000
          1700000001000 (inputValue ?st))"
    and "messages (submit toLowerCase_ascii En 1700000000000 1700000000000 1700000001000
          1700000001000 ?st) =
        messages ?st @ [u, generateResponse toLowerCase_ascii En (userLocation ?st) 1700000001000
          1700000001000 (inputValue ?st)]"
    by blast
  with ne empty show ?thesis by simp
qed

subsection \<open>Submitting while a response is pending\<close>




section \<open>The speech input adapter\<close>

lemma errorMessage_localized: "localizedIn l (errorMessage l err)"
  by (cases l)
     (simp_all add: errorMessage_def localizedIn_def isEnglish_def isHindi_def ascii_def
        hi_micAllow_def hi_noSpeech_def hi_voiceError_def)

text \<open>
  Claim C6. Whatever the listening flag was, after \<^verbatim>\<open>onerror\<close> it is false, nothing
  else of the state has changed but the store, and the store has exactly one more
  message at its end: an assistant message in the active language whose text is the
  permission guidance for \<^verbatim>\<open>not-allowed\<close>, the nothing-heard text for \<^verbatim>\<open>no-speech\<close> and
  the generic failure text for any other error kind.
\<close>

theorem onerror_resets_listening:
  "\<not> isListening (onerror l err now date st)
   \<and> (\<exists>m. onerror l err now date st = st\<lparr>isListening := False, messages := messages st @ [m]\<rparr>
        \<and> \<not> isUser m \<and> id' m = toString now \<and> localizedIn l (text' m)
        \<and> (err = ascii ''not-allowed'' \<longrightarrow>
             text' m = (if l = Hi then hi_micAllow else ascii ''Please allow microphone access''))
        \<and> (err = ascii ''no-speech'' \<longrightarrow>
             text' m = (if l = Hi then hi_noSpeech else ascii ''No speech detected''))
        \<and> (err \<noteq> ascii ''not-allowed'' \<and> err \<noteq> ascii ''no-speech'' \<longrightarrow>
             text' m = (if l = Hi then hi_voiceError else ascii ''Voice recognition error'')))"
proof
  show "\<not> isListening (onerror l err now date st)"
    by (simp add: onerror_def appendMessage_def)
next
  let ?m = "\<lparr> id' = toString now, text' = errorMessage l err, isUser = False,
         timestamp = date, data = None, showChart = None, showComparison = None,
         suggestions = None \<rparr>"
  have "onerror l err now date st = st\<lparr>isListening := False, messages := messages st @ [?m]\<rparr>"
    by (simp add: onerror_def appendMessage_def)
  moreover have "\<not> isUser ?m" "id' ?m = toString now"
    by simp_all
  moreover have "localizedIn l (text' ?m)"
    by (simp add: errorMessage_localized)
  moreover have "err = ascii ''not-allowed'' \<longrightarrow>
      text' ?m = (if l = Hi then hi_micAllow else ascii ''Please allow microphone access'')"
    by (simp add: errorMessage_def)
  moreover have "err = ascii ''no-speech'' \<longrightarrow>
      text' ?m = (if l = Hi then hi_noSpeech else ascii ''No speech detected'')"
    by (simp add: errorMessage_def ascii_def)
  moreover have "err \<noteq> ascii ''not-allowed'' \<and> err \<noteq> ascii ''no-speech'' \<longrightarrow>
      text' ?m = (if l = Hi then hi_voiceError else ascii ''Voice recognition error'')"
    by (simp add: errorMessage_def)
  ultimately show "\<exists>m. onerror l err now date st
        = st\<lparr>isListening := False, messages := messages st @ [m]\<rparr>
      \<and> \<not> isUser m \<and> id' m = toString now \<and> localizedIn l (text' m)
      \<and> (err = ascii ''not-allowed'' \<longrightarrow>
           text' m = (if l = Hi then hi_micAllow else ascii ''Please allow microphone access''))
      \<and> (err = ascii ''no-speech'' \<longrightarrow>
           text' m = (if l = Hi then hi_noSpeech else ascii ''No speech detected''))
      \<and> (err \<noteq> ascii ''not-allowed'' \<and> err \<noteq> ascii ''no-speech'' \<longrightarrow>
           text' m = (if l = Hi then hi_voiceError else ascii ''Voice recognition error''))"
    by blast
qed

theorem onerror_resets_listening_witness:
  "isListening (onstart initialState)
   \<and> \<not> isListening (onerror En (ascii ''network'') 1700000000000 1700000000000
        (onstart initialState))
   \<and> map text' (messages (onerror En (ascii ''network'') 1700000000000 1700000000000
        (onstart initialState))) = [ascii ''Voice recognition error'']
   \<and> map text' (messages (onerror Hi (ascii ''no-speech'') 1700000000000 1700000000000
        (onstart initialState))) = [hi_noSpeech]
   \<and> map text' (messages (onerror En (ascii ''not-allowed'') 1700000000000 1700000000000
        initialState)) = [ascii ''Please allow microphone access'']"
proof -
  have on: "isListening (onstart initialState)"
    by (simp add: onstart_def)
  have e: "messages (onstart initialState) = []" "messages initialState = []"
    by (simp_all add: onstart_def initialState_def)
  have other: "ascii ''network'' \<noteq> ascii ''not-allowed'' \<and> ascii ''network'' \<noteq> ascii ''no-speech''"
    by (simp add: ascii_def)
  from onerror_resets_listening
         [of En "ascii ''network''" 1700000000000 1700000000000 "onstart initialState"] other
  have 1: "\<not> isListening (onerror En (ascii ''network'') 1700000000000 1700000000000
        (onstart initialState))
     \<and> map text' (messages (onerror En (ascii ''network'') 1700000000000 1700000000000
        (onstart initialState))) = [ascii ''Voice recognition error'']"
    using e by auto
  from onerror_resets_listening
         [of Hi "ascii ''no-speech''" 1700000000000 1700000000000 "onstart initialState"]
  have 2: "map text' (messages (onerror Hi (ascii ''no-speech'') 1700000000000 1700000000000
        (onstart initialState))) = [hi_noSpeech]"
    using e by auto
  from onerror_resets_listening
         [of En "ascii ''not-allowed''" 1700000000000 1700000000000 initialState]
  have 3: "map text' (messages (onerror En (ascii ''not-allowed'') 1700000000000 1700000000000
        initialState)) = [ascii ''Please allow microphone access'']"
    using e by auto
  from on 1 2 3 show ?thesis by blast
qed

lemma startListening_texts_localized:
  "localizedIn l (if l = Hi then hi_voiceNotAvailable else ascii ''Voice recognition not available'')"
  "localizedIn l (if l = Hi then hi_httpsRequired else ascii ''HTTPS connection required for voice'')"
  "localizedIn l (if l = Hi then hi_couldNotStart else ascii ''Could not start voice recognition'')"
  by (cases l; simp add: localizedIn_def isEnglish_def isHindi_def ascii_def
        hi_voiceNotAvailable_def hi_httpsRequired_def hi_couldNotStart_def)+

text \<open>
  Claim C7. \<^verbatim>\<open>startListening\<close> never completes by throwing. Without a recognition
  object it appends one assistant message, "not available" in the active language, and
  starts no session. With one, on a page whose protocol is not \<^verbatim>\<open>https:\<close> and whose host
  is not \<^verbatim>\<open>localhost\<close>, it appends one "secure connection required" message and starts no
  session. Otherwise it calls \<^verbatim>\<open>start()\<close>: when the call throws, the exception is caught,
  the listening flag is set to false and one "could not start" message is appended;
  when it returns, the state is unchanged and the session is started.
\<close>

theorem startListening_never_throws:
  "startListening l protocol hostname start now date st \<noteq> Throws
   \<and> (recognitionRef st = None \<longrightarrow>
        (\<exists>m. startListening l protocol hostname start now date st
               = Returns (st\<lparr>messages := messages st @ [m]\<rparr>, False)
           \<and> \<not> isUser m \<and> localizedIn l (text' m)
           \<and> text' m = (if l = Hi then hi_voiceNotAvailable
                         else ascii ''Voice recognition not available'')))
   \<and> (recognitionRef st \<noteq> None \<and> protocol \<noteq> ascii ''https:'' \<and> hostname \<noteq> ascii ''localhost'' \<longrightarrow>
        (\<exists>m. startListening l protocol hostname start now date st
               = Returns (st\<lparr>messages := messages st @ [m]\<rparr>, False)
           \<and> \<not> isUser m \<and> localizedIn l (text' m)
           \<and> text' m = (if l = Hi then hi_httpsRequired
                         else ascii ''HTTPS connection required for voice'')))
   \<and> (recognitionRef st \<noteq> None \<and> (protocol = ascii ''https:'' \<or> hostname = ascii ''localhost'')
        \<and> start = Throws \<longrightarrow>
        (\<exists>m. startListening l protocol hostname start now date st
               = Returns (st\<lparr>isListening := False, messages := messages st @ [m]\<rparr>, False)
           \<and> \<not> isUser m \<and> localizedIn l (text' m)
           \<and> text' m = (if l = Hi then hi_couldNotStart
                         else ascii ''Could not start voice recognition'')))
   \<and> (recognitionRef st \<noteq> None \<and> (protocol = ascii ''https:'' \<or> hostname = ascii ''localhost'')
        \<and> start = Returns () \<longrightarrow>
        startListening l protocol hostname start now date st = Returns (st, True))"
proof (intro conjI impI)
  show "startListening l protocol hostname start now date st \<noteq> Throws"
    by (simp add: startListening_def split: Completion.split)
next
  assume "recognitionRef st = None"
  then have "startListening l protocol hostname start now date st
      = Returns (st\<lparr>messages := messages st @
          [\<lparr> id' = toString now,
             text' = (if l = Hi then hi_voiceNotAvailable
                      else ascii ''Voice recognition not available''),
             isUser = False, timestamp = date, data = None, showChart = None,
             showComparison = None, suggestions = None \<rparr>]\<rparr>, False)"
    by (simp add: startListening_def appendMessage_def)
  then show "\<exists>m. startListening l protocol hostname start now date st
         = Returns (st\<lparr>messages := messages st @ [m]\<rparr>, False)
      \<and> \<not> isUser m \<and> localizedIn l (text' m)
      \<and> text' m = (if l = Hi then hi_voiceNotAvailable
                    else ascii ''Voice recognition not available'')"
    using startListening_texts_localized(1) [of l]
    by (intro exI [where x = "\<lparr> id' = toString now,
             text' = (if l = Hi then hi_voiceNotAvailable
                      else ascii ''Voice recognition not available''),
             isUser = False, timestamp = date, data = None, showChart = None,
             showComparison = None, suggestions = None \<rparr>"]) simp
next
  assume "recognitionRef st \<noteq> None \<and> protocol \<noteq> ascii ''https:'' \<and> hostname \<noteq> ascii ''localhost''"
  then have "startListening l protocol hostname start now date st
      = Returns (st\<lparr>messages := messages st @
          [\<lparr> id' = toString now,
             text' = (if l = Hi then hi_httpsRequired
                      else ascii ''HTTPS connection required for voice''),
             isUser = False, timestamp = date, data = None, showChart = None,
             showComparison = None, suggestions = None \<rparr>]\<rparr>, False)"
    by (auto simp add: startListening_def appendMessage_def)
  then show "\<exists>m. startListening l protocol hostname start now date st
         = Returns (st\<lparr>messages := messages st @ [m]\<rparr>, False)
      \<and> \<not> isUser m \<and> localizedIn l (text' m)
      \<and> text' m = (if l = Hi then hi_httpsRequired
                    else ascii ''HTTPS connection required for voice'')"
    using startListening_texts_localized(2) [of l]
    by (intro exI [where x = "\<lparr> id' = toString now,
             text' = (if l = Hi then hi_httpsRequired
                      else ascii ''HTTPS connection required for voice''),
             isUser = False, timestamp = date, data = None, showChart = None,
             showComparison = None, suggestions = None \<rparr>"]) simp
next
  assume "recognitionRef st \<noteq> None \<and> (protocol = ascii ''https:'' \<or> hostname = ascii ''localhost'')
      \<and> start = Throws"
  then have "startListening l protocol hostname start now date st
      = Returns (st\<lparr>isListening := False, messages := messages st @
          [\<lparr> id' = toString now,
             text' = (if l = Hi then hi_couldNotStart
                      else ascii ''Could not start voice recognition''),
             isUser = False, timestamp = date, data = None, showChart = None,
             showComparison = None, suggestions = None \<rparr>]\<rparr>, False)"
    by (auto simp add: startListening_def appendMessage_def)
  then show "\<exists>m. startListening l protocol hostname start now date st
         = Returns (st\<lparr>isListening := False, messages := messages st @ [m]\<rparr>, False)
      \<and> \<not> isUser m \<and> localizedIn l (text' m)
      \<and> text' m = (if l = Hi then hi_couldNotStart
                    else ascii ''Could not start voice recognition'')"
    using startListening_texts_localized(3) [of l]
    by (intro exI [where x = "\<lparr> id' = toString now,
             text' = (if l = Hi then hi_couldNotStart
                      else ascii ''Could not start voice recognition''),
             isUser = False, timestamp = date, data = None, showChart = None,
             showComparison = None, suggestions = None \<rparr>"]) simp
next
  assume "recognitionRef st \<noteq> None \<and> (protocol = ascii ''https:'' \<or> hostname = ascii ''localhost'')
      \<and> start = Returns ()"
  then show "startListening l protocol hostname start now date st = Returns (st, True)"
    by (auto simp add: startListening_def)
qed

theorem startListening_never_throws_witness:
  "recognitionRef initialState = None
   \<and> (\<exists>m. startListening En (ascii ''https:'') (ascii ''example.org'') (Returns ())
            1700000000000 1700000000000 initialState
          = Returns (initialState\<lparr>messages := messages initialState @ [m]\<rparr>, False)
        \<and> text' m = ascii ''Voice recognition not available'')
   \<and> recognitionRef (initSpeechRecognition Hi True initialState) \<noteq> None
   \<and> (\<exists>m. startListening Hi (ascii ''http:'') (ascii ''example.org'') (Returns ())
            1700000000000 1700000000000 (initSpeechRecognition Hi True initialState)
          = Returns ((initSpeechRecognition Hi True initialState)
              \<lparr>messages := messages (initSpeechRecognition Hi True initialState) @ [m]\<rparr>, False)
        \<and> text' m = hi_httpsRequired)
   \<and> (\<exists>m. startListening En (ascii ''http:'') (ascii ''localhost'') Throws
            1700000000000 1700000000000 (onstart (initSpeechRecognition En True initialState))
          = Returns ((onstart (initSpeechRecognition En True initialState))
              \<lparr>isListening := False,
               messages := messages (onstart (initSpeechRecognition En True initialState)) @ [m]\<rparr>,
              False)
        \<and> text' m = ascii ''Could not start voice recognition'')
   \<and> startListening En (ascii ''https:'') (ascii ''example.org'') (Returns ())
        1700000000000 1700000000000 (initSpeechRecognition En True initialState)
      = Returns (initSpeechRecognition En True initialState, True)"
proof -
  have absent: "recognitionRef initialState = None"
    by (simp add: initialState_def)
  have hi: "recognitionRef (initSpeechRecognition Hi True initialState) \<noteq> None"
    and en: "recognitionRef (initSpeechRecognition En True initialState) \<noteq> None"
    and on: "recognitionRef (onstart (initSpeechRecognition En True initialState)) \<noteq> None"
    by (simp_all add: initSpeechRecognition_def onstart_def)
  have insecure: "ascii ''http:'' \<noteq> ascii ''https:'' \<and> ascii ''example.org'' \<noteq> ascii ''localhost''"
    by (simp add: ascii_def)
  from startListening_never_throws
         [of En "ascii ''https:''" "ascii ''example.org''" "Returns ()" 1700000000000
             1700000000000 initialState] absent
  have 1: "\<exists>m. startListening En (ascii ''https:'') (ascii ''example.org'') (Returns ())
            1700000000000 1700000000000 initialState
          = Returns (initialState\<lparr>messages := messages initialState @ [m]\<rparr>, False)
        \<and> text' m = ascii ''Voice recognition not available''"
    by auto
  from startListening_never_throws
         [of Hi "ascii ''http:''" "ascii ''example.org''" "Returns ()" 1700000000000
             1700000000000 "initSpeechRecognition Hi True initialState"] hi insecure
  have 2: "\<exists>m. startListening Hi (ascii ''http:'') (ascii ''example.org'') (Returns ())
            1700000000000 1700000000000 (initSpeechRecognition Hi True initialState)
          = Returns ((initSpeechRecognition Hi True initialState)
              \<lparr>messages := messages (initSpeechRecognition Hi True initialState) @ [m]\<rparr>, False)
        \<and> text' m = hi_httpsRequired"
    by auto
  from startListening_never_throws
         [of En "ascii ''http:''" "ascii ''localhost''" Throws 1700000000000 1700000000000
             "onstart (initSpeechRecognition En True initialState)"] on
  have 3: "\<exists>m. startListening En (ascii ''http:'') (ascii ''localhost'') Throws
            1700000000000 1700000000000 (onstart (initSpeechRecognition En True initialState))
          = Returns ((onstart (initSpeechRecognition En True initialState))
              \<lparr>isListening := False,
               messages := messages (onstart (initSpeechRecognition En True initialState)) @ [m]\<rparr>,
              False)
        \<and> text' m = ascii ''Could not start voice recognition''"
    by auto
  from startListening_never_throws
         [of En "ascii ''https:''" "ascii ''example.org''" "Returns ()" 1700000000000
             1700000000000 "initSpeechRecognition En True initialState"] en
  have 4: "startListening En (ascii ''https:'') (ascii ''example.org'') (Returns ())
        1700000000000 1700000000000 (initSpeechRecognition En True initialState)
      = Returns (initSpeechRecognition En True initialState, True)"
    by auto
  from absent hi 1 2 3 4 show ?thesis by blast
qed

section \<open>Switching the language\<close>

lemma initSpeechRecognition_keeps:
  "initSpeechRecognition l supported st
     = st\<lparr>recognitionRef := recognitionRef (initSpeechRecognition l supported st)\<rparr>"
  by (simp add: initSpeechRecognition_def)

lemma onerror_localized:
  "\<exists>m. messages (onerror l err now date st) = messages st @ [m] \<and> localizedIn l (text' m)"
  by (simp add: onerror_def appendMessage_def errorMessage_localized)

lemma startListening_localized:
  "startListening l protocol hostname start now date st = Returns (st', b) \<Longrightarrow>
     messages st' = messages st
     \<or> (\<exists>m. messages st' = messages st @ [m] \<and> localizedIn l (text' m))"
  using startListening_texts_localized [of l]
  by (auto simp add: startListening_def appendMessage_def
        split: if_splits Completion.splits)

lemma handleSendMessage_resume_localized:
  "\<exists>r. messages (handleSendMessage_resume lc a now date st) = messages st @ [r]
     \<and> localizedIn (awaitedLanguage a) (text' r)"
  by (simp add: handleSendMessage_resume_messages generateResponse_localized)

text \<open>
  Claim C9 as stated fails: a message created after the change need not be in the new
  language. The response to a submission that is pending when the language changes
  from English to Hindi is built by the call that captured English, and the greeting
  of the geolocation request made at mount, in English, is built by the callback that
  captured English: both messages are created after the change and are in English.
\<close>

theorem onLanguageChange_stale_closure_counterexample:
  "language (clickLanguage True \<lparr> language = En,
       chat = fst (handleSendMessage En 1700000000000 1700000000000
         (handleSampleQuery (ascii ''Show groundwater quality in Delhi'') initialState)) \<rparr>) = Hi
   \<and> localizedIn En (text' (last (messages
       (handleSendMessage_resume toLowerCase_ascii
          (the (snd (handleSendMessage En 1700000000000 1700000000000
             (handleSampleQuery (ascii ''Show groundwater quality in Delhi'') initialState))))
          1700000001000 1700000001000
          (chat (clickLanguage True \<lparr> language = En,
             chat = fst (handleSendMessage En 1700000000000 1700000000000
               (handleSampleQuery (ascii ''Show groundwater quality in Delhi'')
                  initialState)) \<rparr>))))))
   \<and> \<not> localizedIn Hi (text' (last (messages
       (handleSendMessage_resume toLowerCase_ascii
          (the (snd (handleSendMessage En 1700000000000 1700000000000
             (handleSampleQuery (ascii ''Show groundwater quality in Delhi'') initialState))))
          1700000001000 1700000001000
          (chat (clickLanguage True \<lparr> language = En,
             chat = fst (handleSendMessage En 1700000000000 1700000000000
               (handleSampleQuery (ascii ''Show groundwater quality in Delhi'')
                  initialState)) \<rparr>))))))
   \<and> language (clickLanguage True initialIndex) = Hi
   \<and> localizedIn En (text' (last (messages
       (positionCallback (language initialIndex) 28.6 77.2 1700000001000 1700000001000
          (chat (clickLanguage True initialIndex))))))
   \<and> \<not> localizedIn Hi (text' (last (messages
       (positionCallback (language initialIndex) 28.6 77.2 1700000001000 1700000001000
          (chat (clickLanguage True initialIndex))))))"
proof -
  let ?s0 = "handleSampleQuery (ascii ''Show groundwater quality in Delhi'') initialState"
  have ne: "trim (inputValue ?s0) \<noteq> []"
    by (simp add: handleSampleQuery_def trim_def ascii_def isWhiteSpace_def)
  have q: "spec_classify (toLowerCase_ascii (ascii ''Show groundwater quality in Delhi''))
      = Quality"
    by (simp add: spec_classify_cases toLowerCase_ascii_def ascii_def)
  have r: "generateResponse toLowerCase_ascii En None 1700000001000 1700000001000
        (ascii ''Show groundwater quality in Delhi'')
      = qualityResponse En None 1700000001000 1700000001000"
    by (simp add: generateResponse_classify q intentResponse_def)
  have t: "localizedIn En (text' (qualityResponse En None 1700000001000 1700000001000))
      \<and> \<not> localizedIn Hi (text' (qualityResponse En None 1700000001000 1700000001000))"
    by (simp add: qualityResponse_def localizedIn_def isEnglish_def isHindi_def ascii_def)
  have g: "localizedIn En (text' (welcomeMessage En 1700000001000 1700000001000))
      \<and> \<not> localizedIn Hi (text' (welcomeMessage En 1700000001000 1700000001000))"
    by (simp add: welcomeMessage_def localizedIn_def isEnglish_def isHindi_def ascii_def)
  have sw: "language (clickLanguage True \<lparr> language = En,
       chat = fst (handleSendMessage En 1700000000000 1700000000000 ?s0) \<rparr>) = Hi"
    "language (clickLanguage True initialIndex) = Hi"
    by (simp_all add: clickLanguage_def onLanguageChange_def initialIndex_def)
  have pending: "last (messages
       (handleSendMessage_resume toLowerCase_ascii
          (the (snd (handleSendMessage En 1700000000000 1700000000000 ?s0)))
          1700000001000 1700000001000
          (chat (clickLanguage True \<lparr> language = En,
             chat = fst (handleSendMessage En 1700000000000 1700000000000 ?s0) \<rparr>))))
      = qualityResponse En None 1700000001000 1700000001000"
    by (simp add: handleSendMessage_accepts [OF ne] handleSendMessage_resume_messages)
       (simp add: handleSampleQuery_def initialState_def r)
  have geo: "last (messages
       (positionCallback (language initialIndex) 28.6 77.2 1700000001000 1700000001000
          (chat (clickLanguage True initialIndex))))
      = welcomeMessage En 1700000001000 1700000001000"
    by (simp add: positionCallback_def initialIndex_def)
  from sw t g show ?thesis
    unfolding pending geo by blast
qed

text \<open>
  Claim C9, amended. Changing the language leaves the store as it is, message by
  message: of the chat state only the recognition object may change, and the effect
  that runs again makes, where recognition is supported, a recognition object for the
  new language. The messages made by the handlers of the render that follows the
  change are in the new language: the error message of the \<^verbatim>\<open>onerror\<close> that the effect
  attaches, a message of \<^verbatim>\<open>startListening\<close>, and the response to a submission made
  after the change, with its suggestions. The button of the header changes the
  language to the other one. Nothing is said of a message made after the change by a
  callback that was set up before it.
\<close>

theorem onLanguageChange_keeps_messages:
  "messages (chat (onLanguageChange supported l ix)) = messages (chat ix)
   \<and> language (onLanguageChange supported l ix) = l
   \<and> chat (onLanguageChange supported l ix)
       = (chat ix)\<lparr>recognitionRef := recognitionRef (chat (onLanguageChange supported l ix))\<rparr>
   \<and> (supported \<longrightarrow>
        recognitionRef (chat (onLanguageChange supported l ix))
          = Some \<lparr> continuous = False, interimResults = False,
                   lang = (if l = Hi then ascii ''hi-IN'' else ascii ''en-US'') \<rparr>)
   \<and> messages (chat (clickLanguage supported ix)) = messages (chat ix)
   \<and> language (clickLanguage supported ix) \<noteq> language ix
   \<and> (\<exists>m. messages (onerror (language (onLanguageChange supported l ix)) err now date
               (chat (onLanguageChange supported l ix)))
            = messages (chat ix) @ [m] \<and> localizedIn l (text' m))
   \<and> (startListening (language (onLanguageChange supported l ix)) protocol hostname start now date
         (chat (onLanguageChange supported l ix)) = Returns (st', b) \<longrightarrow>
       messages st' = messages (chat ix)
       \<or> (\<exists>m. messages st' = messages (chat ix) @ [m] \<and> localizedIn l (text' m)))
   \<and> (trim (inputValue (chat ix)) \<noteq> [] \<longrightarrow>
       (\<exists>u r a b c. messages (submit lc (language (onLanguageChange supported l ix)) now date now' date'
               (chat (onLanguageChange supported l ix)))
            = messages (chat ix) @ [u, r]
          \<and> isUser u \<and> text' u = inputValue (chat ix)
          \<and> \<not> isUser r \<and> localizedIn l (text' r)
          \<and> suggestions r = Some [a, b, c]
          \<and> localizedIn l a \<and> localizedIn l b \<and> localizedIn l c))"
proof -
  let ?ix = "onLanguageChange supported l ix"
  have lang: "language ?ix = l"
    by (simp add: onLanguageChange_def)
  have chat: "chat ?ix = (chat ix)\<lparr>recognitionRef := recognitionRef (chat ?ix)\<rparr>"
    unfolding onLanguageChange_def
    by (simp add: initSpeechRecognition_keeps [symmetric])
  have msgs: "messages (chat ?ix) = messages (chat ix)"
    by (subst chat) simp
  have input: "inputValue (chat ?ix) = inputValue (chat ix)"
    by (subst chat) simp
  have recog: "supported \<longrightarrow>
        recognitionRef (chat ?ix)
          = Some \<lparr> continuous = False, interimResults = False,
                   lang = (if l = Hi then ascii ''hi-IN'' else ascii ''en-US'') \<rparr>"
    by (simp add: onLanguageChange_def initSpeechRecognition_def)
  have click: "messages (chat (clickLanguage supported ix)) = messages (chat ix)
      \<and> language (clickLanguage supported ix) \<noteq> language ix"
    by (simp add: clickLanguage_def onLanguageChange_def initSpeechRecognition_def)
  have err: "\<exists>m. messages (onerror (language ?ix) err now date (chat ?ix))
            = messages (chat ix) @ [m] \<and> localizedIn l (text' m)"
    using onerror_localized [of l err now date "chat ?ix"] by (simp add: lang msgs)
  have mic: "startListening (language ?ix) protocol hostname start now date (chat ?ix)
        = Returns (st', b) \<longrightarrow>
       messages st' = messages (chat ix)
       \<or> (\<exists>m. messages st' = messages (chat ix) @ [m] \<and> localizedIn l (text' m))"
    using startListening_localized [of l protocol hostname start now date "chat ?ix" st' b]
    by (simp add: lang msgs)
  have send: "trim (inputValue (chat ix)) \<noteq> [] \<longrightarrow>
       (\<exists>u r a b c. messages (submit lc (language ?ix) now date now' date' (chat ?ix))
            = messages (chat ix) @ [u, r]
          \<and> isUser u \<and> text' u = inputValue (chat ix)
          \<and> \<not> isUser r \<and> localizedIn l (text' r)
          \<and> suggestions r = Some [a, b, c]
          \<and> localizedIn l a \<and> localizedIn l b \<and> localizedIn l c)"
  proof
    assume ne: "trim (inputValue (chat ix)) \<noteq> []"
    then have ne': "trim (inputValue (chat ?ix)) \<noteq> []"
      by (simp add: input)
    let ?u = "\<lparr> id' = toString now, text' = inputValue (chat ix), isUser = True,
        timestamp = date, data = None, showChart = None, showComparison = None,
        suggestions = None \<rparr>"
    let ?r = "generateResponse lc l (userLocation (chat ?ix)) now' date' (inputValue (chat ix))"
    have whole: "messages (submit lc (language ?ix) now date now' date' (chat ?ix))
        = messages (chat ix) @ [?u, ?r]"
      by (simp add: submit_def handleSendMessage_accepts [OF ne'] lang msgs input
            handleSendMessage_resume_messages)
    obtain a b c where abc: "suggestions ?r = Some [a, b, c]"
      and loc: "localizedIn l a \<and> localizedIn l b \<and> localizedIn l c"
      using generateResponse_three_localized by blast
    have "isUser ?u \<and> text' ?u = inputValue (chat ix)"
      by simp
    moreover have "\<not> isUser ?r" "localizedIn l (text' ?r)"
      by (simp_all add: generateResponse_not_user generateResponse_localized)
    ultimately show "\<exists>u r a b c. messages (submit lc (language ?ix) now date now' date' (chat ?ix))
            = messages (chat ix) @ [u, r]
          \<and> isUser u \<and> text' u = inputValue (chat ix)
          \<and> \<not> isUser r \<and> localizedIn l (text' r)
          \<and> suggestions r = Some [a, b, c]
          \<and> localizedIn l a \<and> localizedIn l b \<and> localizedIn l c"
      using whole abc loc by blast
  qed
  from msgs lang chat recog click err mic send show ?thesis
    by blast
qed

theorem onLanguageChange_keeps_messages_witness:
  "trim (inputValue (chat \<lparr> language = En,
       chat = handleSampleQuery (ascii ''Compare cities'')
         (onerror En (ascii ''no-speech'') 1700000000000 1700000000000 initialState) \<rparr>)) \<noteq> []
   \<and> map text' (messages (chat (onLanguageChange True Hi \<lparr> language = En,
       chat = handleSampleQuery (ascii ''Compare cities'')
         (onerror En (ascii ''no-speech'') 1700000000000 1700000000000 initialState) \<rparr>)))
     = [ascii ''No speech detected'']
   \<and> (\<exists>u r. map text' (messages (submit toLowerCase_ascii
          (language (onLanguageChange True Hi \<lparr> language = En,
             chat = handleSampleQuery (ascii ''Compare cities'')
               (onerror En (ascii ''no-speech'') 1700000000000 1700000000000 initialState) \<rparr>))
          1700000002000 1700000002000 1700000003000 1700000003000
          (chat (onLanguageChange True Hi \<lparr> language = En,
             chat = handleSampleQuery (ascii ''Compare cities'')
               (onerror En (ascii ''no-speech'') 1700000000000 1700000000000 initialState) \<rparr>))))
        = [ascii ''No speech detected'', u, r]
      \<and> u = ascii ''Compare cities'' \<and> isHindi r)"
proof -
  let ?ix = "\<lparr> language = En,
       chat = handleSampleQuery (ascii ''Compare cities'')
         (onerror En (ascii ''no-speech'') 1700000000000 1700000000000 initialState) \<rparr>"
  have input: "inputValue (chat ?ix) = ascii ''Compare cities''"
    by (simp add: handleSampleQuery_def)
  have ne: "trim (inputValue (chat ?ix)) \<noteq> []"
    unfolding input by (simp add: trim_def ascii_def isWhiteSpace_def)
  have store: "map text' (messages (chat ?ix)) = [ascii ''No speech detected'']"
    by (simp add: handleSampleQuery_def onerror_def appendMessage_def initialState_def
          errorMessage_def)
       (simp add: ascii_def)
  note inst = onLanguageChange_keeps_messages
      [where supported = True and l = Hi and ix = ?ix and lc = toLowerCase_ascii
         and now = 1700000002000 and date = 1700000002000
         and now' = 1700000003000 and date' = 1700000003000]
  from inst have keep: "messages (chat (onLanguageChange True Hi ?ix)) = messages (chat ?ix)"
    by blast
  from inst ne obtain u r
    where "messages (submit toLowerCase_ascii (language (onLanguageChange True Hi ?ix))
          1700000002000 1700000002000 1700000003000 1700000003000
          (chat (onLanguageChange True Hi ?ix)))
        = messages (chat ?ix) @ [u, r]"
      and "text' u = inputValue (chat ?ix)" and "localizedIn Hi (text' r)"
    by blast
  then have "map text' (messages (submit toLowerCase_ascii (language (onLanguageChange True Hi ?ix))
          1700000002000 1700000002000 1700000003000 1700000003000
          (chat (onLanguageChange True Hi ?ix))))
        = [ascii ''No speech detected'', text' u, text' r]
      \<and> text' u = ascii ''Compare cities'' \<and> isHindi (text' r)"
    using store input by (simp add: localizedIn_def)
  with ne keep store show ?thesis
    by auto
qed

section \<open>The geolocation greeter\<close>

lemma greeter_texts:
  "text' (welcomeMessage l now date)
     = (if l = Hi then hi_locationFound
        else ascii ''Location found! I can now provide groundwater information for your area.'')"
  "text' (deniedMessage l now date)
     = (if l = Hi then hi_locationDenied
        else ascii ''Location permission denied. You can still ask about any location.'')"
  by (simp_all add: welcomeMessage_def deniedMessage_def)

lemma welcomeMessage_isGreeting:
  "isGreeting (welcomeMessage l now date)" "\<not> isFallback (welcomeMessage l now date)"
  by (cases l; simp add: isGreeting_def isFallback_def greeter_texts;
      simp add: welcomeMessage_def hi_locationFound_def hi_locationDenied_def ascii_def)+

lemma deniedMessage_isFallback:
  "isFallback (deniedMessage l now date)" "\<not> isGreeting (deniedMessage l now date)"
  by (cases l; simp add: isGreeting_def isFallback_def greeter_texts;
      simp add: deniedMessage_def hi_locationFound_def hi_locationDenied_def ascii_def)+

lemma not_both_greeter: "\<not> (isGreeting m \<and> isFallback m)"
  by (auto simp add: isGreeting_def isFallback_def greeter_texts hi_locationFound_def
        hi_locationDenied_def ascii_def)

lemma greeter_suggestions_three:
  "\<exists>a b c. suggestions (welcomeMessage l now date) = Some [a, b, c]
     \<and> localizedIn l a \<and> localizedIn l b \<and> localizedIn l c"
  "\<exists>a b c. suggestions (deniedMessage l now date) = Some [a, b, c]
     \<and> localizedIn l a \<and> localizedIn l b \<and> localizedIn l c"
  by (cases l; simp add: welcomeMessage_def deniedMessage_def localizedIn_def isEnglish_def
        isHindi_def ascii_def hi_sugMyAreaQuality_def hi_sugShowLevels_def hi_sugFiveYear_def
        hi_sugDelhiQuality_def hi_sugMumbaiPune_def hi_sugBangaloreData_def)+

lemma greeter_suggestions_differ:
  "suggestions (welcomeMessage l now date) = Some ws \<Longrightarrow>
   suggestions (deniedMessage l' now' date') = Some ds \<Longrightarrow> distinct (ws @ ds)"
  by (cases l; cases l';
      auto simp add: welcomeMessage_def deniedMessage_def ascii_def hi_sugMyAreaQuality_def
        hi_sugShowLevels_def hi_sugFiveYear_def hi_sugDelhiQuality_def hi_sugMumbaiPune_def
        hi_sugBangaloreData_def)

subsection \<open>No other message is a greeting or a fallback\<close>

lemma intentResponse_not_greeter:
  "\<not> isGreeting (intentResponse i l loc now date)" "\<not> isFallback (intentResponse i l loc now date)"
  by (cases i; cases l; cases loc;
      simp add: isGreeting_def isFallback_def greeter_texts intentResponse_def response_defs;
      simp add: hi_defs ascii_def)+

lemma generateResponse_not_greeter:
  "\<not> isGreeting (generateResponse lc l loc now date t)"
  "\<not> isFallback (generateResponse lc l loc now date t)"
  by (simp_all add: generateResponse_classify intentResponse_not_greeter)

lemma errorMessage_not_greeter:
  "errorMessage l err \<noteq> text' (welcomeMessage l' now date)"
  "errorMessage l err \<noteq> text' (deniedMessage l' now date)"
  by (cases l; cases l';
      simp add: errorMessage_def greeter_texts hi_micAllow_def hi_noSpeech_def hi_voiceError_def
        hi_locationFound_def hi_locationDenied_def;
      simp add: ascii_def)+

lemma startListening_texts_not_greeter:
  "hi_voiceNotAvailable \<noteq> text' (welcomeMessage l' now date)"
  "hi_voiceNotAvailable \<noteq> text' (deniedMessage l' now date)"
  "ascii ''Voice recognition not available'' \<noteq> text' (welcomeMessage l' now date)"
  "ascii ''Voice recognition not available'' \<noteq> text' (deniedMessage l' now date)"
  "hi_httpsRequired \<noteq> text' (welcomeMessage l' now date)"
  "hi_httpsRequired \<noteq> text' (deniedMessage l' now date)"
  "ascii ''HTTPS connection required for voice'' \<noteq> text' (welcomeMessage l' now date)"
  "ascii ''HTTPS connection required for voice'' \<noteq> text' (deniedMessage l' now date)"
  "hi_couldNotStart \<noteq> text' (welcomeMessage l' now date)"
  "hi_couldNotStart \<noteq> text' (deniedMessage l' now date)"
  "ascii ''Could not start voice recognition'' \<noteq> text' (welcomeMessage l' now date)"
  "ascii ''Could not start voice recognition'' \<noteq> text' (deniedMessage l' now date)"
  by (cases l';
      simp add: greeter_texts hi_voiceNotAvailable_def hi_httpsRequired_def hi_couldNotStart_def
        hi_locationFound_def hi_locationDenied_def;
      simp add: ascii_def)+

lemma greeterMessages_appendMessage:
  "\<not> isGreeting m \<Longrightarrow> \<not> isFallback m \<Longrightarrow>
     greeterMessages (appendMessage m st) = greeterMessages st"
  by (simp add: greeterMessages_def appendMessage_def)

lemma greeterMessages_onerror: "greeterMessages (onerror l err now date st) = greeterMessages st"
proof -
  let ?m = "\<lparr> id' = toString now, text' = errorMessage l err, isUser = False,
         timestamp = date, data = None, showChart = None, showComparison = None,
         suggestions = None \<rparr>"
  have "\<not> isGreeting ?m" "\<not> isFallback ?m"
    by (simp_all add: isGreeting_def isFallback_def errorMessage_not_greeter)
  then have "greeterMessages (appendMessage ?m (st\<lparr>isListening := False\<rparr>))
      = greeterMessages (st\<lparr>isListening := False\<rparr>)"
    by (rule greeterMessages_appendMessage)
  then show ?thesis
    by (simp add: onerror_def greeterMessages_def)
qed

lemma greeterMessages_startListening:
  "startListening l protocol hostname start now date st = Returns (st', b) \<Longrightarrow>
     greeterMessages st' = greeterMessages st"
  by (auto simp add: startListening_def appendMessage_def greeterMessages_def isGreeting_def
        isFallback_def startListening_texts_not_greeter
        split: if_splits Completion.splits)

lemma greeterMessages_handleSendMessage:
  "handleSendMessage l now date st = (st', a) \<Longrightarrow> greeterMessages st' = greeterMessages st"
  by (auto simp add: handleSendMessage_def appendMessage_def greeterMessages_def isGreeting_def
        isFallback_def split: if_splits)

lemma greeterMessages_resume:
  "greeterMessages (handleSendMessage_resume lc a now date st) = greeterMessages st"
  by (simp add: handleSendMessage_resume_def appendMessage_def greeterMessages_def
        generateResponse_not_greeter)

lemma greeterMessages_requestLocationPermission:
  "length (greeterMessages (requestLocationPermission l outcome now date st))
     \<le> max 1 (length (greeterMessages st))"
  by (cases outcome)
     (simp_all add: requestLocationPermission_def positionCallback_def
        positionErrorCallback_def greeterMessages_def)

lemma reachable_one_greeter: "reachable lc st \<Longrightarrow> length (greeterMessages st) \<le> 1"
proof (induction rule: reachable.induct)
  case r_initial
  show ?case by (simp add: greeterMessages_def initialState_def)
next
  case (r_effect st l supported)
  then show ?case by (simp add: greeterMessages_def initSpeechRecognition_def)
next
  case (r_geolocation st l outcome now date)
  with greeterMessages_requestLocationPermission [of l outcome now date st]
  show ?case by simp
next
  case (r_onstart st)
  then show ?case by (simp add: greeterMessages_def onstart_def)
next
  case (r_onresult st transcript)
  then show ?case by (simp add: greeterMessages_def onresult_def)
next
  case (r_onerror st l err now date)
  then show ?case by (simp add: greeterMessages_onerror)
next
  case (r_onend st)
  then show ?case by (simp add: greeterMessages_def onend_def)
next
  case (r_startListening st l protocol hostname start now date st' b)
  then show ?case by (simp add: greeterMessages_startListening)
next
  case (r_send st l now date st' a)
  then show ?case by (simp add: greeterMessages_handleSendMessage)
next
  case (r_resume st a now date)
  then show ?case by (simp add: greeterMessages_resume)
next
  case (r_sample st query)
  then show ?case by (simp add: greeterMessages_def handleSampleQuery_def)
qed

lemma one_greeter_not_both:
  assumes "length (greeterMessages st) \<le> 1"
  shows "\<not> ((\<exists>m\<in>set (messages st). isGreeting m) \<and> (\<exists>m\<in>set (messages st). isFallback m))"
proof
  assume "(\<exists>m\<in>set (messages st). isGreeting m) \<and> (\<exists>m\<in>set (messages st). isFallback m)"
  then obtain g f where g: "g \<in> set (messages st)" "isGreeting g"
    and f: "f \<in> set (messages st)" "isFallback f"
    by blast
  from g f have "g \<noteq> f"
    using not_both_greeter by blast
  moreover from g f have "g \<in> set (greeterMessages st)" "f \<in> set (greeterMessages st)"
    by (simp_all add: greeterMessages_def)
  ultimately have "{g, f} \<subseteq> set (greeterMessages st)" "card {g, f} = 2"
    by simp_all
  then have "2 \<le> card (set (greeterMessages st))"
    by (metis card_mono List.finite_set)
  also have "\<dots> \<le> length (greeterMessages st)"
    by (rule card_length)
  finally show False
    using assms by simp
qed

text \<open>
  Claim C5 as stated fails where the platform has no geolocation: the permission
  becomes denied and no fallback message is produced; the store stays empty.
\<close>

theorem requestLocationPermission_no_geolocation_counterexample:
  "locationPermission
     (requestLocationPermission En NoGeolocation 1700000000000 1700000000000 initialState) = Denied
   \<and> messages
     (requestLocationPermission En NoGeolocation 1700000000000 1700000000000 initialState) = []"
  by (simp add: requestLocationPermission_def initialState_def)

text \<open>
  Claim C5, amended. A position stores the location, sets the permission to granted
  and makes the store exactly one greeting with three suggestions, whatever the store
  held. A failure reported by the platform sets the permission to denied and makes
  the store exactly one fallback message with three suggestions, none of them a
  suggestion of the greeting. A platform without geolocation sets the permission to
  denied and changes nothing else: it produces no message. In every state of the chat
  the store holds at most one message that is a greeting or a fallback, and never
  both a greeting and a fallback.
\<close>

theorem requestLocationPermission_outcomes:
  "(\<exists>m a b c.
      requestLocationPermission l (Position lat lon) now date st
        = st\<lparr>userLocation := Some \<lparr> latitude = lat, longitude = lon, city = None, state = None \<rparr>,
             locationPermission := Granted, messages := [m]\<rparr>
      \<and> isGreeting m \<and> \<not> isFallback m \<and> localizedIn l (text' m)
      \<and> suggestions m = Some [a, b, c]
      \<and> localizedIn l a \<and> localizedIn l b \<and> localizedIn l c)
   \<and> (\<exists>m a b c.
      requestLocationPermission l (Failed e) now date st
        = st\<lparr>locationPermission := Denied, messages := [m]\<rparr>
      \<and> isFallback m \<and> \<not> isGreeting m \<and> localizedIn l (text' m)
      \<and> suggestions m = Some [a, b, c]
      \<and> localizedIn l a \<and> localizedIn l b \<and> localizedIn l c
      \<and> (\<forall>l' now' date' ws. suggestions (welcomeMessage l' now' date') = Some ws
            \<longrightarrow> distinct (ws @ [a, b, c])))
   \<and> requestLocationPermission l NoGeolocation now date st = st\<lparr>locationPermission := Denied\<rparr>
   \<and> (reachable lc st' \<longrightarrow>
        length (greeterMessages st') \<le> 1
        \<and> \<not> ((\<exists>m\<in>set (messages st'). isGreeting m) \<and> (\<exists>m\<in>set (messages st'). isFallback m)))"
proof (intro conjI impI)
  obtain a b c where "suggestions (welcomeMessage l now date) = Some [a, b, c]"
    and "localizedIn l a \<and> localizedIn l b \<and> localizedIn l c"
    using greeter_suggestions_three(1) by blast
  moreover have "localizedIn l (text' (welcomeMessage l now date))"
    by (cases l)
       (simp_all add: greeter_texts localizedIn_def isEnglish_def isHindi_def ascii_def
          hi_locationFound_def)
  moreover have "requestLocationPermission l (Position lat lon) now date st
        = st\<lparr>userLocation := Some \<lparr> latitude = lat, longitude = lon, city = None, state = None \<rparr>,
             locationPermission := Granted, messages := [welcomeMessage l now date]\<rparr>"
    by (simp add: requestLocationPermission_def positionCallback_def)
  ultimately show "\<exists>m a b c.
      requestLocationPermission l (Position lat lon) now date st
        = st\<lparr>userLocation := Some \<lparr> latitude = lat, longitude = lon, city = None, state = None \<rparr>,
             locationPermission := Granted, messages := [m]\<rparr>
      \<and> isGreeting m \<and> \<not> isFallback m \<and> localizedIn l (text' m)
      \<and> suggestions m = Some [a, b, c]
      \<and> localizedIn l a \<and> localizedIn l b \<and> localizedIn l c"
    using welcomeMessage_isGreeting [of l now date] by blast
next
  obtain a b c where abc: "suggestions (deniedMessage l now date) = Some [a, b, c]"
    and "localizedIn l a \<and> localizedIn l b \<and> localizedIn l c"
    using greeter_suggestions_three(2) by blast
  moreover have "localizedIn l (text' (deniedMessage l now date))"
    by (cases l)
       (simp_all add: greeter_texts localizedIn_def isEnglish_def isHindi_def ascii_def
          hi_locationDenied_def)
  moreover have "requestLocationPermission l (Failed e) now date st
        = st\<lparr>locationPermission := Denied, messages := [deniedMessage l now date]\<rparr>"
    by (simp add: requestLocationPermission_def positionErrorCallback_def)
  moreover have "\<forall>l' now' date' ws. suggestions (welcomeMessage l' now' date') = Some ws
      \<longrightarrow> distinct (ws @ [a, b, c])"
    using greeter_suggestions_differ [OF _ abc] by blast
  ultimately show "\<exists>m a b c.
      requestLocationPermission l (Failed e) now date st
        = st\<lparr>locationPermission := Denied, messages := [m]\<rparr>
      \<and> isFallback m \<and> \<not> isGreeting m \<and> localizedIn l (text' m)
      \<and> suggestions m = Some [a, b, c]
      \<and> localizedIn l a \<and> localizedIn l b \<and> localizedIn l c
      \<and> (\<forall>l' now' date' ws. suggestions (welcomeMessage l' now' date') = Some ws
            \<longrightarrow> distinct (ws @ [a, b, c]))"
    using deniedMessage_isFallback [of l now date] by blast
next
  show "requestLocationPermission l NoGeolocation now date st = st\<lparr>locationPermission := Denied\<rparr>"
    by (simp add: requestLocationPermission_def)
next
  assume "reachable lc st'"
  then show "length (greeterMessages st') \<le> 1"
    by (rule reachable_one_greeter)
  then show "\<not> ((\<exists>m\<in>set (messages st'). isGreeting m) \<and> (\<exists>m\<in>set (messages st'). isFallback m))"
    by (rule one_greeter_not_both)
qed

theorem requestLocationPermission_outcomes_witness:
  "reachable toLowerCase_ascii
     (requestLocationPermission En (Failed PERMISSION_DENIED) 1700000005000 1700000005000
       (requestLocationPermission En (Position 28.6 77.2) 1700000000000 1700000000000 initialState))
   \<and> length (greeterMessages
       (requestLocationPermission En (Failed PERMISSION_DENIED) 1700000005000 1700000005000
         (requestLocationPermission En (Position 28.6 77.2) 1700000000000 1700000000000
           initialState))) \<le> 1
   \<and> map text' (messages
       (requestLocationPermission En (Position 28.6 77.2) 1700000000000 1700000000000 initialState))
     = [ascii ''Location found! I can now provide groundwater information for your area.'']
   \<and> locationPermission
       (requestLocationPermission En (Position 28.6 77.2) 1700000000000 1700000000000 initialState)
     = Granted"
proof -
  let ?st1 = "requestLocationPermission En (Position 28.6 77.2) 1700000000000 1700000000000
      initialState"
  let ?st2 = "requestLocationPermission En (Failed PERMISSION_DENIED) 1700000005000 1700000005000
      ?st1"
  have r: "reachable toLowerCase_ascii ?st2"
    by (intro reachable.r_geolocation reachable.r_initial)
  note inst = requestLocationPermission_outcomes
      [where l = En and lat = "28.6" and lon = "77.2" and now = 1700000000000
         and date = 1700000000000 and st = initialState and lc = toLowerCase_ascii
         and st' = ?st2]
  from inst r have one: "length (greeterMessages ?st2) \<le> 1"
    by blast
  from inst obtain m
    where "?st1 = initialState
        \<lparr>userLocation := Some \<lparr> latitude = 28.6, longitude = 77.2, city = None, state = None \<rparr>,
         locationPermission := Granted, messages := [m]\<rparr>"
      and "isGreeting m" and "localizedIn En (text' m)"
    by blast
  then have "map text' (messages ?st1)
      = [ascii ''Location found! I can now provide groundwater information for your area.'']
      \<and> locationPermission ?st1 = Granted"
    by (auto simp add: isGreeting_def greeter_texts localizedIn_def isEnglish_def
          hi_locationFound_def)
  with r one show ?thesis
    by blast
qed

section \<open>Message ids\<close>

lemma unat_digit: "d < 10 \<Longrightarrow> unat (digit d) = 48 + d"
proof -
  assume "d < 10"
  then have "(48 + d) mod 2 ^ LENGTH(16) = 48 + d"
    by simp
  then show ?thesis
    unfolding digit_def by (simp only: unat_of_nat)
qed

lemma digit_inject: "a < 10 \<Longrightarrow> b < 10 \<Longrightarrow> digit a = digit b \<Longrightarrow> a = b"
  by (metis unat_digit add_left_cancel)

lemma digits_small: "n < 10 \<Longrightarrow> digits n = [digit n]"
  by (subst digits.simps) simp

lemma digits_large: "\<not> n < 10 \<Longrightarrow> digits n = digits (n div 10) @ [digit (n mod 10)]"
  by (subst digits.simps) simp

lemma digits_not_Nil: "digits n \<noteq> []"
  by (cases "n < 10") (simp_all add: digits_small digits_large)

lemma digits_length_one: "length (digits n) = 1 \<longleftrightarrow> n < 10"
  using digits_not_Nil [of "n div 10"]
  by (cases "n < 10") (simp_all add: digits_small digits_large)

lemma digits_inject: "digits n = digits m \<Longrightarrow> n = m"
proof (induction n arbitrary: m rule: digits.induct)
  case (1 n)
  from "1.prems" have "length (digits n) = 1 \<longleftrightarrow> length (digits m) = 1"
    by simp
  then have same: "n < 10 \<longleftrightarrow> m < 10"
    by (simp only: digits_length_one)
  show ?case
  proof (cases "n < 10")
    case True
    with same have m: "m < 10" by simp
    with True "1.prems" have "digit n = digit m"
      by (simp add: digits_small)
    with True m show ?thesis by (rule digit_inject)
  next
    case False
    with same have m: "\<not> m < 10" by simp
    with False "1.prems" have "digits (n div 10) = digits (m div 10)"
      and d: "digit (n mod 10) = digit (m mod 10)"
      by (simp_all add: digits_large)
    with False "1.IH" have "n div 10 = m div 10"
      by blast
    moreover from d have "n mod 10 = m mod 10"
      by (intro digit_inject) simp_all
    ultimately show ?thesis
      by (metis div_mult_mod_eq)
  qed
qed

lemma digits_hd_not_minus: "hd (digits n) \<noteq> 0x002D"
proof (induction n rule: digits.induct)
  case (1 n)
  show ?case
  proof (cases "n < 10")
    case True
    then have "unat (digit n) = 48 + n"
      by (rule unat_digit)
    then have "digit n \<noteq> 0x002D"
      by auto
    with True show ?thesis
      by (simp add: digits_small)
  next
    case False
    with "1.IH" show ?thesis
      by (simp add: digits_large digits_not_Nil)
  qed
qed

lemma toString_inject: "toString a = toString b \<Longrightarrow> a = b"
proof -
  assume eq: "toString a = toString b"
  have neg: "x < 0 \<Longrightarrow> 0 \<le> y \<Longrightarrow> toString x \<noteq> toString y" for x y
  proof
    assume "x < 0" "0 \<le> y" "toString x = toString y"
    then have "hd (digits (nat y)) = 0x002D"
      by (simp add: toString_def) (metis list.sel(1))
    then show False
      using digits_hd_not_minus by blast
  qed
  consider "a < 0" "b < 0" | "a < 0" "0 \<le> b" | "0 \<le> a" "b < 0" | "0 \<le> a" "0 \<le> b"
    by linarith
  then show "a = b"
  proof cases
    case 1
    with eq have "nat (- a) = nat (- b)"
      by (simp add: toString_def digits_inject)
    with 1 show ?thesis by simp
  next
    case 2
    with neg eq show ?thesis by blast
  next
    case 3
    with neg [of b a] eq show ?thesis by simp
  next
    case 4
    with eq have "nat a = nat b"
      by (simp add: toString_def digits_inject)
    with 4 show ?thesis by simp
  qed
qed

lemma generateResponse_id: "id' (generateResponse lc l loc now date t) = toString now"
  by (cases "spec_classify (lc t)")
     (simp_all add: generateResponse_classify intentResponse_def response_defs)

lemma fresh_id:
  assumes "distinct (map id' ms)" and "id' ` set ms \<subseteq> toString ` T"
    and "now \<notin> T" and "id' m = toString now"
  shows "distinct (map id' (ms @ [m])) \<and> id' ` set (ms @ [m]) \<subseteq> toString ` insert now T"
proof -
  have "toString now \<notin> toString ` T"
    using assms(3) by (auto dest: toString_inject)
  with assms(2) have "id' m \<notin> id' ` set ms"
    using assms(4) by auto
  with assms show ?thesis
    by auto
qed

lemma runs_ids:
  "runs lc T st \<Longrightarrow>
     distinct (map id' (messages st)) \<and> id' ` set (messages st) \<subseteq> toString ` T"
proof (induction rule: runs.induct)
  case t_initial
  show ?case by (simp add: initialState_def)
next
  case (t_effect T st l supported)
  then show ?case by (simp add: initSpeechRecognition_def)
next
  case (t_no_geolocation T st l now date)
  then show ?case by (simp add: requestLocationPermission_def)
next
  case (t_position T st now l lat lon date)
  show ?case by (simp add: positionCallback_def welcomeMessage_def)
next
  case (t_position_error T st now l date)
  show ?case by (simp add: positionErrorCallback_def deniedMessage_def)
next
  case (t_onstart T st)
  then show ?case by (simp add: onstart_def)
next
  case (t_onresult T st transcript)
  then show ?case by (simp add: onresult_def)
next
  case (t_onerror T st now l err date)
  let ?m = "\<lparr> id' = toString now, text' = errorMessage l err, isUser = False,
         timestamp = date, data = None, showChart = None, showComparison = None,
         suggestions = None \<rparr>"
  from t_onerror have "distinct (map id' (messages st @ [?m]))
      \<and> id' ` set (messages st @ [?m]) \<subseteq> toString ` insert now T"
    by (intro fresh_id) simp_all
  then show ?case by (simp add: onerror_def appendMessage_def)
next
  case (t_onend T st)
  then show ?case by (simp add: onend_def)
next
  case (t_startListening T st now l protocol hostname start date st' b)
  from t_startListening.hyps(3)
  consider "messages st' = messages st"
    | m where "messages st' = messages st @ [m]" "id' m = toString now"
    by (auto simp add: startListening_def appendMessage_def
          split: if_splits Completion.splits)
  then show ?case
  proof cases
    case 1
    with t_startListening.IH show ?thesis by auto
  next
    case 2
    with t_startListening.IH t_startListening.hyps(2) fresh_id [of "messages st" T now m]
    show ?thesis by simp
  qed
next
  case (t_send T st now l date st' a)
  from t_send.hyps(3)
  consider "messages st' = messages st"
    | m where "messages st' = messages st @ [m]" "id' m = toString now"
    by (auto simp add: handleSendMessage_def appendMessage_def split: if_splits)
  then show ?case
  proof cases
    case 1
    with t_send.IH show ?thesis by auto
  next
    case 2
    with t_send.IH t_send.hyps(2) fresh_id [of "messages st" T now m]
    show ?thesis by simp
  qed
next
  case (t_resume T st now a date)
  let ?m = "generateResponse lc (awaitedLanguage a) (awaitedLocation a) now date
      (awaitedMessage a)"
  from t_resume have "distinct (map id' (messages st @ [?m]))
      \<and> id' ` set (messages st @ [?m]) \<subseteq> toString ` insert now T"
    by (intro fresh_id) (simp_all add: generateResponse_id)
  then show ?case by (simp add: handleSendMessage_resume_messages)
next
  case (t_sample T st query)
  then show ?case by (simp add: handleSampleQuery_def)
qed

text \<open>
  Claim C8 as stated fails: an id is the decimal form of the clock reading at the
  creation of the message, so two messages made at the same reading share their id.
  Here the submission of a sample query is pending when the error callback of the
  geolocation request runs at the reading 1700000001000 and the response timer fires
  at the same reading: the store then holds the fallback message and the response,
  both with the id \<^verbatim>\<open>1700000001000\<close>.
\<close>

theorem message_ids_collide_counterexample:
  "map id' (messages
     (handleSendMessage_resume toLowerCase_ascii
        (the (snd (handleSendMessage En 1700000000000 1700000000000
           (handleSampleQuery (ascii ''Show groundwater quality in Delhi'')
              initialState))))
        1700000001000 1700000001000
        (positionErrorCallback En 1700000001000 1700000001000
           (fst (handleSendMessage En 1700000000000 1700000000000
              (handleSampleQuery (ascii ''Show groundwater quality in Delhi'')
                 initialState))))))
     = [ascii ''1700000001000'', ascii ''1700000001000'']
   \<and> \<not> distinct (map id' (messages
     (handleSendMessage_resume toLowerCase_ascii
        (the (snd (handleSendMessage En 1700000000000 1700000000000
           (handleSampleQuery (ascii ''Show groundwater quality in Delhi'')
              initialState))))
        1700000001000 1700000001000
        (positionErrorCallback En 1700000001000 1700000001000
           (fst (handleSendMessage En 1700000000000 1700000000000
              (handleSampleQuery (ascii ''Show groundwater quality in Delhi'')
                 initialState)))))))"
proof -
  have ne: "trim (inputValue
      (handleSampleQuery (ascii ''Show groundwater quality in Delhi'') initialState)) \<noteq> []"
    by (simp add: handleSampleQuery_def trim_def ascii_def isWhiteSpace_def)
  have t: "toString 1700000001000 = ascii ''1700000001000''"
    by (simp add: toString_def digits.simps digit_def ascii_def)
  have "map id' (messages
     (handleSendMessage_resume toLowerCase_ascii
        (the (snd (handleSendMessage En 1700000000000 1700000000000
           (handleSampleQuery (ascii ''Show groundwater quality in Delhi'')
              initialState))))
        1700000001000 1700000001000
        (positionErrorCallback En 1700000001000 1700000001000
           (fst (handleSendMessage En 1700000000000 1700000000000
              (handleSampleQuery (ascii ''Show groundwater quality in Delhi'')
                 initialState))))))
     = [toString 1700000001000, toString 1700000001000]"
    by (simp add: handleSendMessage_accepts [OF ne] handleSendMessage_resume_messages
          positionErrorCallback_def deniedMessage_def generateResponse_id)
  then show ?thesis
    by (simp add: t)
qed

text \<open>
  Claim C8, amended. The id of a message is the decimal form of the clock reading at
  its creation, and two readings with the same decimal form are equal. So in every
  state of a run in which no clock reading is returned for two messages, the ids of
  the stored messages are pairwise distinct, and each is the decimal form of one of
  the readings, whichever operation created the message.
\<close>

theorem ids_distinct_for_distinct_readings:
  "(toString x = toString y \<longrightarrow> x = y)
   \<and> (runs lc T st \<longrightarrow>
        distinct (map id' (messages st))
        \<and> (\<forall>m\<in>set (messages st). \<exists>t\<in>T. id' m = toString t))"
proof (intro conjI impI)
  assume "toString x = toString y"
  then show "x = y" by (rule toString_inject)
next
  assume r: "runs lc T st"
  from runs_ids [OF r] show "distinct (map id' (messages st))"
    by blast
  from runs_ids [OF r] show "\<forall>m\<in>set (messages st). \<exists>t\<in>T. id' m = toString t"
    by auto
qed

theorem ids_distinct_for_distinct_readings_witness:
  "runs toLowerCase_ascii {1700000000000, 1700000001000, 1700000001001}
     (handleSendMessage_resume toLowerCase_ascii
        (the (snd (handleSendMessage En 1700000000000 1700000000000
           (handleSampleQuery (ascii ''Show groundwater quality in Delhi'')
              initialState))))
        1700000001001 1700000001001
        (onerror En (ascii ''no-speech'') 1700000001000 1700000001000
           (fst (handleSendMessage En 1700000000000 1700000000000
              (handleSampleQuery (ascii ''Show groundwater quality in Delhi'')
                 initialState)))))
   \<and> distinct (map id' (messages
     (handleSendMessage_resume toLowerCase_ascii
        (the (snd (handleSendMessage En 1700000000000 1700000000000
           (handleSampleQuery (ascii ''Show groundwater quality in Delhi'')
              initialState))))
        1700000001001 1700000001001
        (onerror En (ascii ''no-speech'') 1700000001000 1700000001000
           (fst (handleSendMessage En 1700000000000 1700000000000
              (handleSampleQuery (ascii ''Show groundwater quality in Delhi'')
                 initialState)))))))
   \<and> length (messages
     (handleSendMessage_resume toLowerCase_ascii
        (the (snd (handleSendMessage En 1700000000000 1700000000000
           (handleSampleQuery (ascii ''Show groundwater quality in Delhi'')
              initialState))))
        1700000001001 1700000001001
        (onerror En (ascii ''no-speech'') 1700000001000 1700000001000
           (fst (handleSendMessage En 1700000000000 1700000000000
              (handleSampleQuery (ascii ''Show groundwater quality in Delhi'')
                 initialState)))))) = 3"
proof -
  let ?s0 = "handleSampleQuery (ascii ''Show groundwater quality in Delhi'') initialState"
  let ?h = "handleSendMessage En 1700000000000 1700000000000 ?s0"
  let ?s2 = "onerror En (ascii ''no-speech'') 1700000001000 1700000001000 (fst ?h)"
  let ?s3 = "handleSendMessage_resume toLowerCase_ascii (the (snd ?h))
      1700000001001 1700000001001 ?s2"
  have r0: "runs toLowerCase_ascii {} ?s0"
    by (intro runs.t_sample runs.t_initial)
  have "runs toLowerCase_ascii (insert 1700000000000 {}) (fst ?h)"
    by (rule runs.t_send [OF r0, where a = "snd ?h"]) simp_all
  then have "runs toLowerCase_ascii (insert 1700000001000 {1700000000000}) ?s2"
    by (rule runs.t_onerror) simp
  then have "runs toLowerCase_ascii (insert 1700000001001 {1700000001000, 1700000000000}) ?s3"
    by (rule runs.t_resume) simp
  then have r: "runs toLowerCase_ascii {1700000000000, 1700000001000, 1700000001001} ?s3"
    by (simp add: insert_commute)
  have len: "length (messages ?s3) = 3"
    by (simp add: handleSendMessage_resume_messages onerror_def appendMessage_def
          handleSendMessage_def handleSampleQuery_def initialState_def trim_def ascii_def
          isWhiteSpace_def)
  from ids_distinct_for_distinct_readings
         [of _ _ toLowerCase_ascii "{1700000000000, 1700000001000, 1700000001001}" ?s3] r
  have "distinct (map id' (messages ?s3))"
    by blast
  with r len show ?thesis
    by blast
qed

end
